theory Spec2Isabelle
  imports Complex_Main
begin

section \<open>JavaScript values\<close>

text \<open>
  A JavaScript string is a sequence of UTF-16 code units; the messages are bilingual
  (English and Hebrew), so a string is modelled as the list of its code units.
  \<open>asc\<close> turns an ASCII literal into that representation.
\<close>

type_synonym jsstring = "int list"

definition asc :: "string \<Rightarrow> jsstring" where
  "asc s = map of_char s"

text \<open>
  The filter receives its input from untyped callers and checks every field at run
  time, so the input is a dynamically typed value. An object is its property table.
\<close>

datatype jsval =
    JUndefined
  | JNull
  | JBool bool
  | JNum rat
  | JNaN
  | JStr jsstring
  | JArr "jsval list"
  | JObj "(jsstring \<times> jsval) list"

text \<open>Property read \<open>v.k\<close>; a property that is not there reads as \<open>undefined\<close>.\<close>

fun getProp :: "jsval \<Rightarrow> jsstring \<Rightarrow> jsval" where
  "getProp (JObj fs) k = (case map_of fs k of Some v \<Rightarrow> v | None \<Rightarrow> JUndefined)"
| "getProp _ k = JUndefined"

text \<open>Truthiness, as \<open>!v\<close> tests it.\<close>

fun truthy :: "jsval \<Rightarrow> bool" where
  "truthy JUndefined = False"
| "truthy JNull = False"
| "truthy (JBool b) = b"
| "truthy (JNum q) = (q \<noteq> 0)"
| "truthy JNaN = False"
| "truthy (JStr s) = (s \<noteq> [])"
| "truthy (JArr xs) = True"
| "truthy (JObj fs) = True"

fun isArray :: "jsval \<Rightarrow> bool" where
  "isArray (JArr xs) = True"
| "isArray _ = False"

text \<open>\<open>typeof v === 'object'\<close> holds of objects, arrays and \<open>null\<close>.\<close>

fun typeofObject :: "jsval \<Rightarrow> bool" where
  "typeofObject (JObj fs) = True"
| "typeofObject (JArr xs) = True"
| "typeofObject JNull = True"
| "typeofObject _ = False"

fun typeofString :: "jsval \<Rightarrow> bool" where
  "typeofString (JStr s) = True"
| "typeofString _ = False"

fun elems :: "jsval \<Rightarrow> jsval list" where
  "elems (JArr xs) = xs"
| "elems _ = []"

text \<open>
  String conversion inside a template literal. Only strings reach it: the key of a
  message is built after validation has established that its four fields are strings.
\<close>

fun strOf :: "jsval \<Rightarrow> jsstring" where
  "strOf (JStr s) = s"
| "strOf _ = []"

section \<open>JavaScript numbers\<close>

text \<open>
  The scores are IEEE 754 doubles. A finite double is modelled as the rational number it
  denotes, and every arithmetic operation rounds its exact result to the nearest double,
  ties to even: \<open>fl\<close>. A decimal literal of the source such as \<open>0.6\<close> denotes
  \<open>fl (6 / 10)\<close>. Values are rounded on a 53-bit significand with an unbounded
  exponent; the scores lie between \<open>0\<close> and \<open>2\<close>, far from overflow, and a quotient
  of two string lengths is far from the subnormal range.
\<close>

function bitLength :: "int \<Rightarrow> int" where
  "bitLength n = (if n \<le> 0 then 0 else 1 + bitLength (n div 2))"
  by pat_completeness auto
termination
  by (relation "measure nat") auto

declare bitLength.simps [simp del]

text \<open>The exponent \<open>e\<close> of a positive number \<open>x\<close>: \<open>2 powi e \<le> x < 2 powi (e + 1)\<close>.\<close>

definition exponentOf :: "rat \<Rightarrow> int" where
  "exponentOf x =
     (let (p, q) = quotient_of x;
          e0 = bitLength p - bitLength q
      in if 2 powi e0 \<le> x then e0 else e0 - 1)"

definition roundHalfEven :: "rat \<Rightarrow> int" where
  "roundHalfEven q =
     (let f = \<lfloor>q\<rfloor>; r = q - of_int f
      in if r < 1 / 2 then f
         else if 1 / 2 < r then f + 1
         else if even f then f else f + 1)"

text \<open>Rounding of a non-negative number; the scores are never negative.\<close>

definition fl :: "rat \<Rightarrow> rat" where
  "fl x =
     (if x \<le> 0 then 0
      else (let u = 2 powi (exponentOf x - 52)
            in of_int (roundHalfEven (x / u)) * u))"

definition jsAdd :: "rat \<Rightarrow> rat \<Rightarrow> rat" where
  "jsAdd a b = fl (a + b)"

definition jsDiv :: "rat \<Rightarrow> rat \<Rightarrow> rat" where
  "jsDiv a b = fl (a / b)"

section \<open>Dates\<close>

text \<open>
  A \<open>Date\<close> holds a time value: milliseconds since 1970-01-01T00:00:00Z, or NaN
  (\<open>None\<close>). The calendar functions are those of ECMAScript (Day, DayFromYear,
  YearFromTime, MonthFromTime, DateFromTime, WeekDay, MakeDay, MakeTime, MakeDate,
  TimeClip), on day numbers.
\<close>

definition msPerDay :: int where
  "msPerDay = 86400000"

definition dayFromYear :: "int \<Rightarrow> int" where
  "dayFromYear y =
     365 * (y - 1970) + (y - 1969) div 4 - (y - 1901) div 100 + (y - 1601) div 400"

definition isLeapYear :: "int \<Rightarrow> bool" where
  "isLeapYear y = (y mod 4 = 0 \<and> (y mod 100 \<noteq> 0 \<or> y mod 400 = 0))"

text \<open>
  The largest year whose first day is not after day \<open>d\<close>: an estimate from the mean
  length of a year, corrected by at most one.
\<close>

definition yearFromDay :: "int \<Rightarrow> int" where
  "yearFromDay d =
     (let y0 = 1970 + (400 * d) div 146097
      in if d < dayFromYear y0 then y0 - 1
         else if dayFromYear (y0 + 1) \<le> d then y0 + 1
         else y0)"

text \<open>Day within the year on which month \<open>m\<close> (0 to 11) begins; 12 gives the year's length.\<close>

definition monthStart :: "bool \<Rightarrow> int \<Rightarrow> int" where
  "monthStart leap m =
     (let l = (if leap then 1 else 0)
      in if m = 0 then 0
         else if m = 1 then 31
         else if m = 2 then 59 + l
         else if m = 3 then 90 + l
         else if m = 4 then 120 + l
         else if m = 5 then 151 + l
         else if m = 6 then 181 + l
         else if m = 7 then 212 + l
         else if m = 8 then 243 + l
         else if m = 9 then 273 + l
         else if m = 10 then 304 + l
         else if m = 11 then 334 + l
         else 365 + l)"

definition dayWithinYear :: "int \<Rightarrow> int" where
  "dayWithinYear d = d - dayFromYear (yearFromDay d)"

definition monthFromDay :: "int \<Rightarrow> int" where
  "monthFromDay d =
     (let leap = isLeapYear (yearFromDay d); w = dayWithinYear d
      in if w < monthStart leap 1 then 0
         else if w < monthStart leap 2 then 1
         else if w < monthStart leap 3 then 2
         else if w < monthStart leap 4 then 3
         else if w < monthStart leap 5 then 4
         else if w < monthStart leap 6 then 5
         else if w < monthStart leap 7 then 6
         else if w < monthStart leap 8 then 7
         else if w < monthStart leap 9 then 8
         else if w < monthStart leap 10 then 9
         else if w < monthStart leap 11 then 10
         else 11)"

definition dateFromDay :: "int \<Rightarrow> int" where
  "dateFromDay d =
     dayWithinYear d - monthStart (isLeapYear (yearFromDay d)) (monthFromDay d) + 1"

definition weekDay :: "int \<Rightarrow> int" where
  "weekDay d = (d + 4) mod 7"

definition makeDay :: "int \<Rightarrow> int \<Rightarrow> int \<Rightarrow> int" where
  "makeDay year month date =
     (let ym = year + month div 12; mn = month mod 12
      in dayFromYear ym + monthStart (isLeapYear ym) mn + date - 1)"

definition makeTime :: "int \<Rightarrow> int \<Rightarrow> int \<Rightarrow> int \<Rightarrow> int" where
  "makeTime h m s ms = h * 3600000 + m * 60000 + s * 1000 + ms"

definition makeDate :: "int \<Rightarrow> int \<Rightarrow> int" where
  "makeDate day time = day * msPerDay + time"

definition timeClip :: "int \<Rightarrow> int option" where
  "timeClip t = (if \<bar>t\<bar> \<le> 8640000000000000 then Some t else None)"

subsection \<open>Local time\<close>

text \<open>
  The time zone of the host is a parameter: the operation LocalTZA of ECMAScript.
  \<open>z t True\<close> is the offset of local time from UTC, in milliseconds, at the time value
  \<open>t\<close>; \<open>z t False\<close> is the offset at the local time \<open>t\<close>, and where a change of
  the offset skips or repeats \<open>t\<close>, the offset before the change. \<open>LocalTime\<close> and
  \<open>UTC\<close> convert with it.
\<close>

type_synonym zone = "int \<Rightarrow> bool \<Rightarrow> int"

definition LocalTime :: "zone \<Rightarrow> int \<Rightarrow> int" where
  "LocalTime z t = t + z t True"

definition UTC :: "zone \<Rightarrow> int \<Rightarrow> int" where
  "UTC z t = t - z t False"

subsection \<open>toISOString\<close>

text \<open>Decimal digits of a non-negative number, padded with zeros to a fixed width.\<close>

definition pad2 :: "int \<Rightarrow> jsstring" where
  "pad2 n = [48 + n div 10 mod 10, 48 + n mod 10]"

definition pad3 :: "int \<Rightarrow> jsstring" where
  "pad3 n = [48 + n div 100 mod 10, 48 + n div 10 mod 10, 48 + n mod 10]"

definition pad4 :: "int \<Rightarrow> jsstring" where
  "pad4 n = (48 + n div 1000 mod 10) # pad3 n"

definition pad6 :: "int \<Rightarrow> jsstring" where
  "pad6 n = [48 + n div 100000 mod 10, 48 + n div 10000 mod 10] @ pad4 n"

definition toISOString :: "int \<Rightarrow> jsstring" where
  "toISOString t =
     (let day = t div msPerDay;
          tod = t mod msPerDay;
          y = yearFromDay day;
          yearStr = (if 0 \<le> y \<and> y \<le> 9999 then pad4 y
                     else (if y < 0 then asc ''-'' else asc ''+'') @ pad6 \<bar>y\<bar>)
      in yearStr @ asc ''-'' @ pad2 (monthFromDay day + 1)
           @ asc ''-'' @ pad2 (dateFromDay day)
           @ asc ''T'' @ pad2 (tod div 3600000)
           @ asc '':'' @ pad2 (tod div 60000 mod 60)
           @ asc '':'' @ pad2 (tod div 1000 mod 60)
           @ asc ''.'' @ pad3 (tod mod 1000)
           @ asc ''Z'')"

subsection \<open>Parsing a date string\<close>

text \<open>
  \<open>new Date(s)\<close> on a string. The model parses the complete date-time form
  \<open>YYYY-MM-DDTHH:mm:ss.sssZ\<close> and its expanded-year form \<open>\<plusminus>YYYYYY-MM-DDTHH:mm:ss.sssZ\<close>,
  and gives NaN for every other string. That is what an engine does on these forms. On
  other strings an engine may give a date (a shorter ISO form, or a format of its own),
  but the only strings the filter parses outside \<open>isValidTimestamp\<close> have passed it,
  and \<open>isValidTimestamp\<close> asks that \<open>toISOString\<close> reproduces the string, which it
  cannot do for a string that is not of the complete form: there the model and an engine
  agree on every result the filter computes.
\<close>

definition isDigit :: "int \<Rightarrow> bool" where
  "isDigit c = (48 \<le> c \<and> c \<le> 57)"

definition numOf :: "jsstring \<Rightarrow> int" where
  "numOf s = foldl (\<lambda>a c. 10 * a + (c - 48)) 0 s"

fun parseTail :: "jsstring \<Rightarrow> (int \<times> int \<times> int \<times> int \<times> int \<times> int) option" where
  "parseTail [h1, M1, M2, h2, D1, D2, tT, H1, H2, c1, m1, m2, c2, s1, s2, dot, f1, f2, f3, z] =
     (if h1 = 45 \<and> h2 = 45 \<and> tT = 84 \<and> c1 = 58 \<and> c2 = 58 \<and> dot = 46 \<and> z = 90
         \<and> list_all isDigit [M1, M2, D1, D2, H1, H2, m1, m2, s1, s2, f1, f2, f3]
      then Some (numOf [M1, M2], numOf [D1, D2], numOf [H1, H2], numOf [m1, m2],
                 numOf [s1, s2], numOf [f1, f2, f3])
      else None)"
| "parseTail _ = None"

definition parseYear :: "jsstring \<Rightarrow> (int \<times> jsstring) option" where
  "parseYear s =
     (case s of
        [] \<Rightarrow> None
      | c # cs \<Rightarrow>
          if c = 43 \<or> c = 45 then
            (if length cs \<ge> 6 \<and> list_all isDigit (take 6 cs)
                \<and> \<not> (c = 45 \<and> numOf (take 6 cs) = 0)
             then Some ((if c = 45 then - 1 else 1) * numOf (take 6 cs), drop 6 cs)
             else None)
          else
            (if length s \<ge> 4 \<and> list_all isDigit (take 4 s)
             then Some (numOf (take 4 s), drop 4 s)
             else None))"

definition dateParse :: "jsstring \<Rightarrow> int option" where
  "dateParse s =
     (case parseYear s of
        None \<Rightarrow> None
      | Some (y, rest) \<Rightarrow>
          (case parseTail rest of
             None \<Rightarrow> None
           | Some (mo, d, h, mi, sec, ms) \<Rightarrow>
               if 1 \<le> mo \<and> mo \<le> 12 \<and> 1 \<le> d \<and> d \<le> 31 \<and> h \<le> 24 \<and> mi \<le> 59 \<and> sec \<le> 59
                  \<and> (h = 24 \<longrightarrow> mi = 0 \<and> sec = 0 \<and> ms = 0)
               then timeClip (makeDate (makeDay y (mo - 1) d) (makeTime h mi sec ms))
               else None))"

text \<open>
  The time value of \<open>new Date(v)\<close> for a field of the input. The filter builds dates
  from validated timestamps only, which are strings.
\<close>

fun newDate :: "jsval \<Rightarrow> int option" where
  "newDate (JStr s) = dateParse s"
| "newDate _ = None"

section \<open>MessageFilter\<close>

text \<open>Each constructor is one \<open>throw new Error(...)\<close> of \<open>validateInput\<close>.\<close>

datatype error =
    InputNull              \<comment> \<open>Filter input cannot be null or undefined\<close>
  | MessagesNotArray       \<comment> \<open>Messages must be an array\<close>
  | SubscribedNotArray     \<comment> \<open>Subscribed chats must be an array\<close>
  | PeriodNotObject        \<comment> \<open>Period must be an object with start and end properties\<close>
  | PeriodStartInvalid     \<comment> \<open>Period start must be a valid ISO-8601 timestamp\<close>
  | PeriodEndInvalid       \<comment> \<open>Period end must be a valid ISO-8601 timestamp\<close>
  | PeriodStartNotBeforeEnd \<comment> \<open>Period start must be before period end\<close>
  | MessageNotObject       \<comment> \<open>Each message must be an object\<close>
  | MessageChatId          \<comment> \<open>Each message must have a valid chat_id string\<close>
  | MessageSenderId        \<comment> \<open>Each message must have a valid sender_id string\<close>
  | MessageTimestamp       \<comment> \<open>Each message must have a valid ISO-8601 timestamp\<close>
  | MessageText            \<comment> \<open>Each message must have a text property of type string\<close>

record FilterOptions =
  enableCache :: bool
  cacheSize :: int

definition defaultOptions :: FilterOptions where
  "defaultOptions = \<lparr>enableCache = True, cacheSize = 1000\<rparr>"

record FilterStats =
  totalProcessed :: int
  filteredBySubscription :: int
  filteredByTimePeriod :: int
  duplicatesRemoved :: int
  finalCount :: int

record FilterResult =
  messages :: "jsval list"
  stats :: FilterStats

text \<open>The instance's cache: the keys of a \<open>Map\<close>, in insertion order.\<close>

type_synonym cache = "jsstring list"

definition cacheSet :: "cache \<Rightarrow> jsstring \<Rightarrow> cache" where
  "cacheSet c key = (if key \<in> set c then c else c @ [key])"

definition isValidTimestamp :: "jsval \<Rightarrow> bool" where
  "isValidTimestamp timestamp =
     (if \<not> truthy timestamp \<or> \<not> typeofString timestamp then False
      else (case newDate timestamp of
              None \<Rightarrow> False
            | Some t \<Rightarrow> toISOString t = strOf timestamp))"

text \<open>Comparison of two dates by their time values; every comparison with NaN is false.\<close>

definition dateGe :: "int option \<Rightarrow> int option \<Rightarrow> bool" where
  "dateGe a b = (case (a, b) of (Some x, Some y) \<Rightarrow> x \<ge> y | _ \<Rightarrow> False)"

definition dateLt :: "int option \<Rightarrow> int option \<Rightarrow> bool" where
  "dateLt a b = (case (a, b) of (Some x, Some y) \<Rightarrow> x < y | _ \<Rightarrow> False)"

definition validateMessage :: "jsval \<Rightarrow> error option" where
  "validateMessage message =
     (if \<not> truthy message \<or> \<not> typeofObject message then Some MessageNotObject
      else if \<not> truthy (getProp message (asc ''chat_id''))
              \<or> \<not> typeofString (getProp message (asc ''chat_id'')) then Some MessageChatId
      else if \<not> truthy (getProp message (asc ''sender_id''))
              \<or> \<not> typeofString (getProp message (asc ''sender_id'')) then Some MessageSenderId
      else if \<not> truthy (getProp message (asc ''timestamp''))
              \<or> \<not> isValidTimestamp (getProp message (asc ''timestamp'')) then Some MessageTimestamp
      else if \<not> typeofString (getProp message (asc ''text'')) then Some MessageText
      else None)"

fun validateMessages :: "jsval list \<Rightarrow> error option" where
  "validateMessages [] = None"
| "validateMessages (message # rest) =
     (case validateMessage message of
        Some e \<Rightarrow> Some e
      | None \<Rightarrow> validateMessages rest)"

text \<open>\<open>validateInput\<close> returns the error it throws, or \<open>None\<close> when it returns.\<close>

definition validateInput :: "jsval \<Rightarrow> error option" where
  "validateInput input =
     (let period = getProp input (asc ''period'')
      in if \<not> truthy input then Some InputNull
         else if \<not> isArray (getProp input (asc ''messages'')) then Some MessagesNotArray
         else if \<not> isArray (getProp input (asc ''subscribed_chats'')) then Some SubscribedNotArray
         else if \<not> truthy period \<or> \<not> typeofObject period then Some PeriodNotObject
         else if \<not> isValidTimestamp (getProp period (asc ''start'')) then Some PeriodStartInvalid
         else if \<not> isValidTimestamp (getProp period (asc ''end'')) then Some PeriodEndInvalid
         else if dateGe (newDate (getProp period (asc ''start'')))
                        (newDate (getProp period (asc ''end''))) then Some PeriodStartNotBeforeEnd
         else validateMessages (elems (getProp input (asc ''messages''))))"

definition isMessageInPeriod :: "jsval \<Rightarrow> jsval \<Rightarrow> bool" where
  "isMessageInPeriod message period =
     (let messageDate = newDate (getProp message (asc ''timestamp''));
          startDate = newDate (getProp period (asc ''start''));
          endDate = newDate (getProp period (asc ''end''))
      in dateGe messageDate startDate \<and> dateLt messageDate endDate)"

definition messageKey :: "jsval \<Rightarrow> jsstring" where
  "messageKey message =
     strOf (getProp message (asc ''chat_id'')) @ asc '':''
       @ strOf (getProp message (asc ''sender_id'')) @ asc '':''
       @ strOf (getProp message (asc ''timestamp'')) @ asc '':''
       @ strOf (getProp message (asc ''text''))"

definition getMessageKey :: "FilterOptions \<Rightarrow> cache \<Rightarrow> jsval \<Rightarrow> jsstring \<times> cache" where
  "getMessageKey opts c message =
     (let key = messageKey message
      in (key, if enableCache opts \<and> int (length c) < cacheSize opts then cacheSet c key else c))"

text \<open>
  The loop of \<open>removeDuplicates\<close>; its state is the set \<open>seen\<close>, the array
  \<open>uniqueMessages\<close> and the cache.
\<close>

fun removeDuplicatesLoop ::
  "FilterOptions \<Rightarrow> jsval list \<Rightarrow> jsstring list \<times> jsval list \<times> cache
     \<Rightarrow> jsstring list \<times> jsval list \<times> cache" where
  "removeDuplicatesLoop opts [] st = st"
| "removeDuplicatesLoop opts (message # rest) (seen, uniqueMessages, c) =
     (let (key, c') = getMessageKey opts c message
      in if key \<notin> set seen
         then removeDuplicatesLoop opts rest (key # seen, uniqueMessages @ [message], c')
         else removeDuplicatesLoop opts rest (seen, uniqueMessages, c'))"

definition removeDuplicates :: "FilterOptions \<Rightarrow> cache \<Rightarrow> jsval list \<Rightarrow> jsval list \<times> cache" where
  "removeDuplicates opts c msgs =
     (let (seen, uniqueMessages, c') = removeDuplicatesLoop opts msgs ([], [], c)
      in (uniqueMessages, c'))"

text \<open>The two \<open>Array.filter\<close> stages of \<open>filter\<close> and their callbacks.\<close>

definition isSubscribed :: "jsval \<Rightarrow> jsval \<Rightarrow> bool" where
  "isSubscribed input message =
     (getProp message (asc ''chat_id'') \<in> set (elems (getProp input (asc ''subscribed_chats''))))"

definition subscribedMessages :: "jsval \<Rightarrow> jsval list" where
  "subscribedMessages input =
     filter (isSubscribed input) (elems (getProp input (asc ''messages'')))"

definition timeFilteredMessages :: "jsval \<Rightarrow> jsval list" where
  "timeFilteredMessages input =
     filter (\<lambda>message. isMessageInPeriod message (getProp input (asc ''period'')))
            (subscribedMessages input)"

text \<open>
  \<open>filter\<close>: the error thrown, or the result together with the cache it leaves. Each
  callback increments its counter once for every message it rejects.
\<close>

definition filter_mf :: "FilterOptions \<Rightarrow> cache \<Rightarrow> jsval \<Rightarrow> error + FilterResult \<times> cache" where
  "filter_mf opts c input =
     (case validateInput input of
        Some e \<Rightarrow> Inl e
      | None \<Rightarrow>
          (let msgs = elems (getProp input (asc ''messages''));
               period = getProp input (asc ''period'');
               subscribed = subscribedMessages input;
               timeFiltered = timeFilteredMessages input;
               (uniqueMessages, c') = removeDuplicates opts c timeFiltered
           in Inr (\<lparr>messages = uniqueMessages,
                    stats = \<lparr>totalProcessed = int (length msgs),
                             filteredBySubscription =
                               int (length (filter (\<lambda>message. \<not> isSubscribed input message) msgs)),
                             filteredByTimePeriod =
                               int (length (filter (\<lambda>message. \<not> isMessageInPeriod message period)
                                                   subscribed)),
                             duplicatesRemoved = int (length timeFiltered) - int (length uniqueMessages),
                             finalCount = int (length uniqueMessages)\<rparr>\<rparr>, c')))"

section \<open>ContentExtractor: dates\<close>

text \<open>
  The methods of \<open>Date\<close> that the extractor calls, on a valid time value. They
  read and write the fields of local time, in the time zone \<open>z\<close> of the host.
  \<open>setDate\<close> and the constructor \<open>new Date(year, month, date)\<close> may leave the
  range of time values; the result is then the invalid date \<open>None\<close>. The constructor
  reads a year from 0 to 99 as 1900 plus that year.
\<close>

definition getDay :: "zone \<Rightarrow> int \<Rightarrow> int" where
  "getDay z t = weekDay (LocalTime z t div msPerDay)"

definition getDate :: "zone \<Rightarrow> int \<Rightarrow> int" where
  "getDate z t = dateFromDay (LocalTime z t div msPerDay)"



definition setDate :: "zone \<Rightarrow> int \<Rightarrow> int \<Rightarrow> int option" where
  "setDate z t dt =
     (let lt = LocalTime z t;
          newDate = makeDate (makeDay (yearFromDay (lt div msPerDay))
                                      (monthFromDay (lt div msPerDay)) dt)
                             (lt mod msPerDay)
      in timeClip (UTC z newDate))"


text \<open>\<open>String.prototype.includes\<close>: whether \<open>sub\<close> occurs in \<open>s\<close>.\<close>

fun startsWith :: "jsstring \<Rightarrow> jsstring \<Rightarrow> bool" where
  "startsWith s [] = True"
| "startsWith [] (p # ps) = False"
| "startsWith (c # cs) (p # ps) = (c = p \<and> startsWith cs ps)"

fun includesStr :: "jsstring \<Rightarrow> jsstring \<Rightarrow> bool" where
  "includesStr [] sub = (sub = [])"
| "includesStr (c # cs) sub = (startsWith (c # cs) sub \<or> includesStr cs sub)"

text \<open>
  The Hebrew keywords of \<open>parseRelativeDate\<close>, as code units: today
  (U+05D4 U+05D9 U+05D5 U+05DD), tomorrow (U+05DE U+05D7 U+05E8), yesterday
  (U+05D0 U+05EA U+05DE U+05D5 U+05DC), next week (U+05D4 U+05E9 U+05D1 U+05D5 U+05E2,
  a space, U+05D4 U+05D1 U+05D0) and this week (U+05D4 U+05E9 U+05D1 U+05D5 U+05E2), which
  is the first word of the keyword for next week.
\<close>

definition heToday :: jsstring where
  "heToday = [1492, 1497, 1493, 1501]"

definition heTomorrow :: jsstring where
  "heTomorrow = [1502, 1495, 1512]"

definition heYesterday :: jsstring where
  "heYesterday = [1488, 1514, 1502, 1493, 1500]"

definition heNextWeek :: jsstring where
  "heNextWeek = [1492, 1513, 1489, 1493, 1506, 32, 1492, 1489, 1488]"

definition heThisWeek :: jsstring where
  "heThisWeek = [1492, 1513, 1489, 1493, 1506]"

text \<open>
  \<open>parseRelativeDate(text, baseDate)\<close> returns a date or \<open>null\<close> (the outer
  \<open>None\<close>). The operand of \<open>%\<close> is between 6 and 12, where the remainder of
  JavaScript and \<open>mod\<close> agree.
\<close>

definition parseRelativeDate :: "zone \<Rightarrow> jsstring \<Rightarrow> int \<Rightarrow> int option option" where
  "parseRelativeDate z text baseDate =
     (if includesStr text (asc ''today'') \<or> includesStr text heToday then Some (Some baseDate)
      else if includesStr text (asc ''tomorrow'') \<or> includesStr text heTomorrow
        then Some (setDate z baseDate (getDate z baseDate + 1))
      else if includesStr text (asc ''yesterday'') \<or> includesStr text heYesterday
        then Some (setDate z baseDate (getDate z baseDate - 1))
      else if includesStr text (asc ''next week'') \<or> includesStr text heNextWeek
        then Some (setDate z baseDate (getDate z baseDate + 7))
      else if includesStr text (asc ''this week'') \<or> includesStr text heThisWeek
        then (let dayOfWeek = getDay z baseDate;
                  daysUntilFriday = (5 - dayOfWeek + 7) mod 7
              in Some (setDate z baseDate (getDate z baseDate + daysUntilFriday)))
      else None)"



section \<open>Regular expressions\<close>

text \<open>
  The patterns of the source are regular expressions without the \<open>u\<close> flag. \<open>rx\<close> has
  the constructs they use: literal text (\<open>Str\<close> for ASCII, \<open>Uni\<close> for code units
  given by number), the classes \<open>\d\<close>, \<open>\s\<close>, \<open>\w\<close>, a set \<open>[...]\<close> of code
  units or a range, the assertion \<open>\b\<close>, sequence, alternation and the greedy
  quantifiers \<open>?\<close>, \<open>*\<close>, \<open>+\<close> and \<open>{m,n}\<close>. Groups only delimit: no pattern
  has a back-reference, and the functions modelled here do not read captures.
\<close>

datatype rx =
    Eps
  | Str string
  | Uni jsstring
  | Digit
  | Space
  | WordChar
  | OneOf "int list"
  | Range int int
  | Boundary
  | Seq rx rx
  | Alt rx rx
  | Opt rx
  | Star rx

definition Plus :: "rx \<Rightarrow> rx" where
  "Plus r = Seq r (Star r)"

fun Rep :: "nat \<Rightarrow> nat \<Rightarrow> rx \<Rightarrow> rx" where
  "Rep 0 0 r = Eps"
| "Rep 0 (Suc n) r = Opt (Seq r (Rep 0 n r))"
| "Rep (Suc m) (Suc n) r = Seq r (Rep m n r)"
| "Rep (Suc m) 0 r = Eps"

fun seqs :: "rx list \<Rightarrow> rx" where
  "seqs [] = Eps"
| "seqs [r] = r"
| "seqs (r # rs) = Seq r (seqs rs)"

fun alts :: "rx list \<Rightarrow> rx" where
  "alts [] = Eps"
| "alts [r] = r"
| "alts (r # rs) = Alt r (alts rs)"

record regexp =
  ignoreCase :: bool
  body :: rx

text \<open>White space and line terminators: the class \<open>\s\<close>, and what \<open>trim\<close> removes.\<close>

definition isSpace :: "int \<Rightarrow> bool" where
  "isSpace c =
     (c \<in> set [9, 10, 11, 12, 13, 32, 160, 5760, 8232, 8233, 8239, 8287, 12288, 65279]
      \<or> (8192 \<le> c \<and> c \<le> 8202))"

definition isWordChar :: "int \<Rightarrow> bool" where
  "isWordChar c =
     ((48 \<le> c \<and> c \<le> 57) \<or> (65 \<le> c \<and> c \<le> 90) \<or> (97 \<le> c \<and> c \<le> 122) \<or> c = 95)"

text \<open>
  Canonicalisation under the \<open>i\<close> flag. Without the \<open>u\<close> flag it maps a code unit to
  its upper case, except that a code unit outside ASCII is never mapped into ASCII. The
  patterns hold ASCII and Hebrew characters only, and Hebrew has no case, so a code unit
  of the text is equivalent to one of a pattern exactly when they are equal up to the
  case of an ASCII letter.
\<close>

definition canonicalize :: "bool \<Rightarrow> int \<Rightarrow> int" where
  "canonicalize ci c = (if ci \<and> 97 \<le> c \<and> c \<le> 122 then c - 32 else c)"

text \<open>
  A position of the matcher in the subject: the code unit before it, if any, and the
  rest of the subject from it on.
\<close>

type_synonym mstate = "int option \<times> jsstring"

definition atBoundary :: "mstate \<Rightarrow> bool" where
  "atBoundary st =
     ((case fst st of Some c \<Rightarrow> isWordChar c | None \<Rightarrow> False)
      \<noteq> (case snd st of c # cs \<Rightarrow> isWordChar c | [] \<Rightarrow> False))"

fun matchLiteral :: "bool \<Rightarrow> jsstring \<Rightarrow> mstate \<Rightarrow> mstate list" where
  "matchLiteral ci [] st = [st]"
| "matchLiteral ci (p # ps) (prev, []) = []"
| "matchLiteral ci (p # ps) (prev, c # cs) =
     (if canonicalize ci c = canonicalize ci p then matchLiteral ci ps (Some c, cs) else [])"

fun matchClass :: "(int \<Rightarrow> bool) \<Rightarrow> mstate \<Rightarrow> mstate list" where
  "matchClass f (prev, []) = []"
| "matchClass f (prev, c # cs) = (if f c then [(Some c, cs)] else [])"

text \<open>
  \<open>rxMatch ci r st\<close> lists the positions at which a match of \<open>r\<close> that starts at
  \<open>st\<close> can end, in the order in which a backtracking matcher tries them: the left
  branch of an alternation first, the longest repetition first. An iteration of \<open>*\<close>
  that consumes nothing is not repeated.
\<close>

function rxMatch :: "bool \<Rightarrow> rx \<Rightarrow> mstate \<Rightarrow> mstate list" where
  "rxMatch ci Eps st = [st]"
| "rxMatch ci (Str s) st = matchLiteral ci (map of_char s) st"
| "rxMatch ci (Uni s) st = matchLiteral ci s st"
| "rxMatch ci Digit st = matchClass isDigit st"
| "rxMatch ci Space st = matchClass isSpace st"
| "rxMatch ci WordChar st = matchClass isWordChar st"
| "rxMatch ci (OneOf cs) st =
     matchClass (\<lambda>c. canonicalize ci c \<in> set (map (canonicalize ci) cs)) st"
| "rxMatch ci (Range a b) st =
     matchClass (\<lambda>c. list_ex (\<lambda>x. canonicalize ci x = canonicalize ci c) [a..b]) st"
| "rxMatch ci Boundary st = (if atBoundary st then [st] else [])"
| "rxMatch ci (Seq r1 r2) st = concat (map (rxMatch ci r2) (rxMatch ci r1 st))"
| "rxMatch ci (Alt r1 r2) st = rxMatch ci r1 st @ rxMatch ci r2 st"
| "rxMatch ci (Opt r) st = rxMatch ci r st @ [st]"
| "rxMatch ci (Star r) st =
     concat (map (\<lambda>st'. if length (snd st') < length (snd st)
                         then rxMatch ci (Star r) st' else [])
                 (rxMatch ci r st)) @ [st]"
  by pat_completeness auto
termination
  by (relation "inv_image (measure size <*lex*> measure length) (\<lambda>(ci, r, st). (r, snd st))")
     auto

text \<open>
  \<open>RegExp.prototype.test\<close> for a pattern without the \<open>g\<close> flag: is there a match that
  starts at some position of the subject.
\<close>

fun testFrom :: "bool \<Rightarrow> rx \<Rightarrow> int option \<Rightarrow> jsstring \<Rightarrow> bool" where
  "testFrom ci r prev [] = (rxMatch ci r (prev, []) \<noteq> [])"
| "testFrom ci r prev (c # cs) =
     (rxMatch ci r (prev, c # cs) \<noteq> [] \<or> testFrom ci r (Some c) cs)"

definition test :: "regexp \<Rightarrow> jsstring \<Rightarrow> bool" where
  "test re s = testFrom (ignoreCase re) (body re) None s"

text \<open>
  \<open>String.prototype.match\<close> for a pattern without the \<open>g\<close> flag returns \<open>null\<close>
  or the array of \<open>exec\<close>, whose element 0 is the text of the first match: at the
  leftmost position where there is a match, the one that a backtracking matcher finds
  first. \<open>matchText\<close> is that element.
\<close>

fun execFrom :: "bool \<Rightarrow> rx \<Rightarrow> int option \<Rightarrow> jsstring \<Rightarrow> jsstring option" where
  "execFrom ci r prev [] = (if rxMatch ci r (prev, []) \<noteq> [] then Some [] else None)"
| "execFrom ci r prev (c # cs) =
     (case rxMatch ci r (prev, c # cs) of
        [] \<Rightarrow> execFrom ci r (Some c) cs
      | st # sts \<Rightarrow> Some (take (length (c # cs) - length (snd st)) (c # cs)))"

definition matchText :: "regexp \<Rightarrow> jsstring \<Rightarrow> jsstring option" where
  "matchText re s = execFrom (ignoreCase re) (body re) None s"

text \<open>
  \<open>String.prototype.replace\<close> with a pattern that has the \<open>g\<close> flag and a replacement
  string without \<open>$\<close>: every match, found from left to right in the original subject, is
  replaced. After a match that consumes nothing, the next code unit is copied.
\<close>

function replaceFrom :: "bool \<Rightarrow> rx \<Rightarrow> jsstring \<Rightarrow> int option \<Rightarrow> jsstring \<Rightarrow> jsstring" where
  "replaceFrom ci r rep prev s =
     (let ms = rxMatch ci r (prev, s)
      in if ms \<noteq> [] \<and> length (snd (hd ms)) < length s
           then rep @ replaceFrom ci r rep (fst (hd ms)) (snd (hd ms))
         else if s = [] then (if ms \<noteq> [] then rep else [])
         else (if ms \<noteq> [] then rep else []) @ hd s # replaceFrom ci r rep (Some (hd s)) (tl s))"
  by pat_completeness auto
termination
  by (relation "measure (\<lambda>(ci, r, rep, prev, s). length s)") (auto simp: case_prod_beta)

declare replaceFrom.simps [simp del]

definition replaceAll :: "regexp \<Rightarrow> jsstring \<Rightarrow> jsstring \<Rightarrow> jsstring" where
  "replaceAll re rep s = replaceFrom (ignoreCase re) (body re) rep None s"

section \<open>Pattern tables\<close>

text \<open>
  The tables of \<open>patterns.ts\<close>. Hebrew text is written as code units: the letters
  alef to tav are 1488 to 1514, geresh is 1523 and gershayim 1524.
\<close>

definition HOMEWORK_PATTERNS_keywords :: regexp where
  "HOMEWORK_PATTERNS_keywords =
     \<lparr>ignoreCase = True,
      body = seqs [Boundary, alts [Str ''homework'', Str ''assignment'', Str ''exercise'',
             Str ''project'', Str ''quiz'', Str ''test'', Str ''exam'', Str ''pages'',
             Str ''chapter'', Str ''read'', Str ''write'', Str ''complete'', Str ''solve'',
             Str ''prepare'', Str ''submit'', Str ''due'', Str ''deadline'', Uni [1513,
             1497, 1506, 1493, 1512, 1497, 32, 1489, 1497, 1514], Uni [1514, 1512, 1490,
             1497, 1500], Uni [1502, 1496, 1500, 1492], Uni [1508, 1512, 1493, 1497, 1511,
             1496], Uni [1502, 1489, 1495, 1503], Uni [1489, 1493, 1495, 1503], Uni [1506,
             1502, 1493, 1491, 1497, 1501], Uni [1508, 1512, 1511], Uni [1500, 1511, 1512,
             1493, 1488], Uni [1500, 1499, 1514, 1493, 1489], Uni [1500, 1492, 1513, 1500,
             1497, 1501], Uni [1500, 1508, 1514, 1493, 1512], Uni [1500, 1492, 1499, 1497,
             1503], Uni [1500, 1492, 1490, 1497, 1513], Uni [1500, 1492, 1490, 1513,
             1492]], Boundary]\<rparr>"

definition HOMEWORK_PATTERNS_pages :: regexp where
  "HOMEWORK_PATTERNS_pages =
     \<lparr>ignoreCase = True,
      body = seqs [Boundary, alts [seqs [Str ''page'', Opt (Str ''s'')], seqs [Uni [1506,
             1502, 1493, 1491, 1497], Opt (Uni [1501])], Uni [1506, 1502, 1523]],
             Star Space, alts [seqs [Plus Digit, OneOf [45, 8211], Plus Digit], Plus Digit]]\<rparr>"

definition HOMEWORK_PATTERNS_exercise :: regexp where
  "HOMEWORK_PATTERNS_exercise =
     \<lparr>ignoreCase = True,
      body = seqs [Boundary, alts [Str ''exercise'', Uni [1514, 1512, 1490, 1497, 1500]],
             Star Space, seqs [Plus Digit, Opt (Uni [46]), Star Digit]]\<rparr>"

definition HOMEWORK_PATTERNS_chapter :: regexp where
  "HOMEWORK_PATTERNS_chapter =
     \<lparr>ignoreCase = True,
      body = seqs [Boundary, alts [Str ''chapter'', Uni [1508, 1512, 1511]], Star Space,
             Plus Digit]\<rparr>"

definition SCHEDULE_PATTERNS_keywords :: regexp where
  "SCHEDULE_PATTERNS_keywords =
     \<lparr>ignoreCase = True,
      body = seqs [Boundary, alts [Str ''changed'', Str ''moved'', Str ''cancelled'',
             Str ''canceled'', Str ''postponed'', Str ''rescheduled'', Str ''new time'',
             Str ''new location'', Str ''instead of'', Uni [1513, 1493, 1504, 1492],
             Uni [1492, 1493, 1506, 1489, 1512], Uni [1489, 1493, 1496, 1500], Uni [1504,
             1491, 1495, 1492], Uni [1494, 1502, 1503, 32, 1495, 1491, 1513], Uni [1502,
             1497, 1511, 1493, 1501, 32, 1495, 1491, 1513], Uni [1489, 1502, 1511, 1493,
             1501]], Boundary]\<rparr>"

definition SCHEDULE_PATTERNS_timeChange :: regexp where
  "SCHEDULE_PATTERNS_timeChange =
     \<lparr>ignoreCase = True,
      body = seqs [Boundary, alts [Str ''time changed'', Str ''new time'',
             Str ''moved to'', Str ''rescheduled to'', Uni [1513, 1506, 1492, 32, 1513,
             1493, 1504, 1514, 1492], Uni [1513, 1506, 1492, 32, 1495, 1491, 1513, 1492],
             Uni [1492, 1493, 1506, 1489, 1512, 32, 1500]], Boundary]\<rparr>"

definition SCHEDULE_PATTERNS_cancellation :: regexp where
  "SCHEDULE_PATTERNS_cancellation =
     \<lparr>ignoreCase = True,
      body = seqs [Boundary, alts [Str ''cancelled'', Str ''canceled'', Str ''no class'',
             Str ''class cancelled'', Uni [1489, 1493, 1496, 1500], Uni [1488, 1497, 1503,
             32, 1513, 1497, 1506, 1493, 1512], Uni [1492, 1513, 1497, 1506, 1493, 1512,
             32, 1489, 1493, 1496, 1500]], Boundary]\<rparr>"

definition SCHEDULE_PATTERNS_locationChange :: regexp where
  "SCHEDULE_PATTERNS_locationChange =
     \<lparr>ignoreCase = True,
      body = seqs [Boundary, alts [Str ''room'', Str ''location'', Str ''place'',
             Str ''moved to room'', Uni [1495, 1491, 1512], Uni [1502, 1497, 1511, 1493,
             1501], Uni [1502, 1511, 1493, 1501], Uni [1506, 1489, 1512, 32, 1500, 1495,
             1491, 1512]], Boundary]\<rparr>"

definition ANNOUNCEMENT_PATTERNS_event :: regexp where
  "ANNOUNCEMENT_PATTERNS_event =
     \<lparr>ignoreCase = True,
      body = seqs [Boundary, alts [Str ''event'', Str ''field trip'', Str ''ceremony'',
             Str ''performance'', Str ''party'', Str ''meeting'', Uni [1488, 1497, 1512,
             1493, 1506], Uni [1496, 1497, 1493, 1500], Uni [1496, 1511, 1505], Uni [1492,
             1493, 1508, 1506, 1492], Uni [1502, 1505, 1497, 1489, 1492], Uni [1508, 1490,
             1497, 1513, 1492], Uni [1488, 1505, 1497, 1508, 1514, 32, 1492, 1493, 1512,
             1497, 1501]], Boundary]\<rparr>"

definition ANNOUNCEMENT_PATTERNS_permissionSlip :: regexp where
  "ANNOUNCEMENT_PATTERNS_permissionSlip =
     \<lparr>ignoreCase = True,
      body = seqs [Boundary, alts [Str ''permission slip'', Str ''form'',
             Str ''signature'', Str ''sign'', Str ''return'', Uni [1488, 1497, 1513, 1493,
             1512], Uni [1496, 1493, 1508, 1505], Uni [1495, 1514, 1497, 1502, 1492],
             Uni [1500, 1495, 1514, 1493, 1501], Uni [1500, 1492, 1495, 1494, 1497, 1512]],
             Boundary]\<rparr>"

definition ANNOUNCEMENT_PATTERNS_urgent :: regexp where
  "ANNOUNCEMENT_PATTERNS_urgent =
     \<lparr>ignoreCase = True,
      body = seqs [Boundary, alts [Str ''urgent'', Str ''important'', Str ''attention'',
             Str ''immediately'', Str ''asap'', Uni [1491, 1495, 1493, 1507], Uni [1495,
             1513, 1493, 1489], Uni [1500, 1514, 1513, 1493, 1502, 1514, 32, 1500, 1489],
             Uni [1502, 1497, 1497, 1491, 1497], Uni [1489, 1492, 1511, 1491, 1501]],
             Boundary]\<rparr>"

definition ANNOUNCEMENT_PATTERNS_reminder :: regexp where
  "ANNOUNCEMENT_PATTERNS_reminder =
     \<lparr>ignoreCase = True,
      body = seqs [Boundary, alts [Str ''reminder'', Uni [100, 111, 110, 39, 116, 32, 102,
             111, 114, 103, 101, 116], Str ''remember'', Uni [1514, 1494, 1499, 1493, 1512,
             1514], Uni [1488, 1500, 32, 1514, 1513, 1499, 1495, 1493], Uni [1500, 1494,
             1499, 1493, 1512]], Boundary]\<rparr>"

definition DATE_PATTERNS_relative :: regexp where
  "DATE_PATTERNS_relative =
     \<lparr>ignoreCase = True,
      body = seqs [Boundary, alts [Str ''today'', Str ''tomorrow'', Str ''yesterday'',
             seqs [Str ''next'', Plus Space, Plus WordChar], seqs [Str ''this'',
             Plus Space, Plus WordChar], Uni [1492, 1497, 1493, 1501], Uni [1502, 1495,
             1512], Uni [1488, 1514, 1502, 1493, 1500], Uni [1492, 1513, 1489, 1493, 1506],
             Uni [1489, 1513, 1489, 1493, 1506, 32, 1492, 1489, 1488]], Boundary]\<rparr>"

definition DATE_PATTERNS_numeric :: regexp where
  "DATE_PATTERNS_numeric =
     \<lparr>ignoreCase = False,
      body = seqs [Boundary, Rep 1 2 Digit, OneOf [47, 45, 46], Rep 1 2 Digit,
             Opt (seqs [OneOf [47, 45, 46], Rep 2 4 Digit]), Boundary]\<rparr>"

definition DATE_PATTERNS_textual :: regexp where
  "DATE_PATTERNS_textual =
     \<lparr>ignoreCase = True,
      body = alts [seqs [Boundary, Rep 1 2 Digit, Star Space, alts [Str ''January'',
             Str ''February'', Str ''March'', Str ''April'', Str ''May'', Str ''June'',
             Str ''July'', Str ''August'', Str ''September'', Str ''October'',
             Str ''November'', Str ''December'', Str ''Jan'', Str ''Feb'', Str ''Mar'',
             Str ''Apr'', Str ''May'', Str ''Jun'', Str ''Jul'', Str ''Aug'', Str ''Sep'',
             Str ''Oct'', Str ''Nov'', Str ''Dec'', Uni [1497, 1504, 1493, 1488, 1512],
             Uni [1508, 1489, 1512, 1493, 1488, 1512], Uni [1502, 1512, 1509], Uni [1488,
             1508, 1512, 1497, 1500], Uni [1502, 1488, 1497], Uni [1497, 1493, 1504, 1497],
             Uni [1497, 1493, 1500, 1497], Uni [1488, 1493, 1490, 1493, 1505, 1496],
             Uni [1505, 1508, 1496, 1502, 1489, 1512], Uni [1488, 1493, 1511, 1496, 1493,
             1489, 1512], Uni [1504, 1493, 1489, 1502, 1489, 1512], Uni [1491, 1510, 1502,
             1489, 1512]], Boundary], seqs [Boundary, alts [Str ''January'',
             Str ''February'', Str ''March'', Str ''April'', Str ''May'', Str ''June'',
             Str ''July'', Str ''August'', Str ''September'', Str ''October'',
             Str ''November'', Str ''December'', Str ''Jan'', Str ''Feb'', Str ''Mar'',
             Str ''Apr'', Str ''May'', Str ''Jun'', Str ''Jul'', Str ''Aug'', Str ''Sep'',
             Str ''Oct'', Str ''Nov'', Str ''Dec'', Uni [1497, 1504, 1493, 1488, 1512],
             Uni [1508, 1489, 1512, 1493, 1488, 1512], Uni [1502, 1512, 1509], Uni [1488,
             1508, 1512, 1497, 1500], Uni [1502, 1488, 1497], Uni [1497, 1493, 1504, 1497],
             Uni [1497, 1493, 1500, 1497], Uni [1488, 1493, 1490, 1493, 1505, 1496],
             Uni [1505, 1508, 1496, 1502, 1489, 1512], Uni [1488, 1493, 1511, 1496, 1493,
             1489, 1512], Uni [1504, 1493, 1489, 1502, 1489, 1512], Uni [1491, 1510, 1502,
             1489, 1512]], Star Space, Rep 1 2 Digit, Boundary]]\<rparr>"

definition DATE_PATTERNS_weekday :: regexp where
  "DATE_PATTERNS_weekday =
     \<lparr>ignoreCase = True,
      body = seqs [Boundary, alts [Str ''Monday'', Str ''Tuesday'', Str ''Wednesday'',
             Str ''Thursday'', Str ''Friday'', Str ''Saturday'', Str ''Sunday'',
             Str ''Mon'', Str ''Tue'', Str ''Wed'', Str ''Thu'', Str ''Fri'', Str ''Sat'',
             Str ''Sun'', Uni [1512, 1488, 1513, 1493, 1503], Uni [1513, 1504, 1497],
             Uni [1513, 1500, 1497, 1513, 1497], Uni [1512, 1489, 1497, 1506, 1497],
             Uni [1495, 1502, 1497, 1513, 1497], Uni [1513, 1497, 1513, 1497], Uni [1513,
             1489, 1514], seqs [Uni [1497, 1493, 1501, 32], Range 1488 1493,
             Opt (Uni [1523])]], Boundary]\<rparr>"

definition DATE_PATTERNS_time :: regexp where
  "DATE_PATTERNS_time =
     \<lparr>ignoreCase = False,
      body = seqs [Boundary, Rep 1 2 Digit, Str '':'', Rep 2 2 Digit, Opt (seqs [Str '':'',
             Rep 2 2 Digit]), Star Space, Opt (alts [Str ''AM'', Str ''PM'', Str ''am'',
             Str ''pm'']), Boundary]\<rparr>"

definition IMPORTANCE_INDICATORS_high :: regexp where
  "IMPORTANCE_INDICATORS_high =
     \<lparr>ignoreCase = True,
      body = seqs [Boundary, alts [Str ''urgent'', Str ''important'', Str ''critical'',
             Str ''must'', Str ''required'', Str ''mandatory'', Str ''deadline'',
             Uni [1491, 1495, 1493, 1507], Uni [1495, 1513, 1493, 1489], Uni [1511, 1512,
             1497, 1496, 1497], Uni [1495, 1493, 1489, 1492], Uni [1504, 1491, 1512, 1513],
             Uni [1491, 1491, 45, 1500, 1497, 1497, 1503]], Boundary]\<rparr>"

definition IMPORTANCE_INDICATORS_medium :: regexp where
  "IMPORTANCE_INDICATORS_medium =
     \<lparr>ignoreCase = True,
      body = seqs [Boundary, alts [Str ''please'', Str ''kindly'', Str ''reminder'',
             Str ''note'', Str ''attention'', Uni [1489, 1489, 1511, 1513, 1492],
             Uni [1514, 1494, 1499, 1493, 1512, 1514], Uni [1513, 1497, 1502, 1493, 32,
             1500, 1489], Uni [1500, 1514, 1513, 1493, 1502, 1514]], Boundary]\<rparr>"

definition IMPORTANCE_INDICATORS_low :: regexp where
  "IMPORTANCE_INDICATORS_low =
     \<lparr>ignoreCase = True,
      body = seqs [Boundary, alts [Str ''optional'', Str ''if possible'', Str ''maybe'',
             Str ''perhaps'', Uni [1488, 1493, 1508, 1510, 1497, 1493, 1504, 1500, 1497],
             Uni [1488, 1501, 32, 1488, 1508, 1513, 1512], Uni [1488, 1493, 1500, 1497]],
             Boundary]\<rparr>"

definition ABBREVIATIONS :: "(jsstring \<times> jsstring) list" where
  "ABBREVIATIONS =
     [(asc ''hw'', asc ''homework''),
      (asc ''pgs'', asc ''pages''),
      (asc ''pg'', asc ''page''),
      (asc ''ch'', asc ''chapter''),
      (asc ''ex'', asc ''exercise''),
      (asc ''q'', asc ''question''),
      (asc ''asap'', asc ''as soon as possible''),
      (asc ''tmrw'', asc ''tomorrow''),
      (asc ''tmr'', asc ''tomorrow''),
      (asc ''thx'', asc ''thanks''),
      (asc ''pls'', asc ''please''),
      (asc ''plz'', asc ''please''),
      (asc ''u'', asc ''you''),
      (asc ''ur'', asc ''your''),
      (asc ''r'', asc ''are''),
      (asc ''b4'', asc ''before''),
      (asc ''2day'', asc ''today''),
      (asc ''2morrow'', asc ''tomorrow''),
      (asc ''2mrw'', asc ''tomorrow''),
      ([1513, 1524, 1489], [1513, 1497, 1506, 1493, 1512, 1497, 32, 1489, 1497, 1514]),
      ([1506, 1502, 1523], [1506, 1502, 1493, 1491, 1497, 1501]),
      ([1514, 1512, 1523], [1514, 1512, 1490, 1497, 1500])]"

definition STOP_WORDS :: "jsstring list" where
  "STOP_WORDS =
     map asc
       [''the'', ''a'', ''an'', ''and'', ''or'', ''but'', ''in'', ''on'', ''at'', ''to'',
        ''for'', ''of'', ''with'', ''by'', ''from'', ''about'', ''as'', ''is'', ''was'',
        ''are'', ''were'', ''been'', ''be'', ''have'', ''has'', ''had'', ''do'', ''does'',
        ''did'', ''will'', ''would'', ''should'', ''could'', ''may'', ''might'', ''must'',
        ''can'', ''this'', ''that'', ''these'', ''those'', ''i'', ''you'', ''he'', ''she'',
        ''it'', ''we'', ''they'', ''what'', ''which'', ''who'', ''when'', ''where'',
        ''why'', ''how'', ''all'', ''each'', ''every'', ''some'', ''few'', ''more'',
        ''most'', ''other'', ''such'', ''only'', ''own'', ''so'', ''than'', ''too'',
        ''very'', ''just'', ''now'']
     @ [[1513, 1500], [1488, 1514], [1506, 1500], [1506, 1501], [1488, 1500], [1502, 1503],
        [1489, 1497, 1503], [1499, 1500], [1490, 1501], [1512, 1511], [1506, 1493, 1491],
        [1492, 1497, 1492], [1492, 1493, 1488], [1492, 1497, 1488], [1492, 1501], [1492, 1503],
        [1488, 1504, 1497], [1488, 1514, 1492], [1488, 1514], [1488, 1504, 1495, 1504, 1493],
        [1488, 1514, 1501]]"

section \<open>ContentExtractor: text\<close>

text \<open>
  \<open>replaceRuns f r\<close> replaces every maximal run of code units that satisfy \<open>f\<close> by
  the single code unit \<open>r\<close>: \<open>replace(/\s+/g, ' ')\<close> and \<open>replace(/\n+/g, ' ')\<close>.
  \<open>replaceChars cs r\<close> is \<open>replace(/[cs]/g, r)\<close>; the two classes of the source hold
  the straight double quote (34) and the straight apostrophe (39), each twice.
\<close>

fun replaceRuns :: "(int \<Rightarrow> bool) \<Rightarrow> int \<Rightarrow> jsstring \<Rightarrow> jsstring" where
  "replaceRuns f r [] = []"
| "replaceRuns f r [c] = (if f c then [r] else [c])"
| "replaceRuns f r (c # d # cs) =
     (if f c then (if f d then replaceRuns f r (d # cs) else r # replaceRuns f r (d # cs))
      else c # replaceRuns f r (d # cs))"

definition replaceChars :: "int list \<Rightarrow> int \<Rightarrow> jsstring \<Rightarrow> jsstring" where
  "replaceChars cs r s = map (\<lambda>c. if c \<in> set cs then r else c) s"

definition trim :: "jsstring \<Rightarrow> jsstring" where
  "trim s = rev (dropWhile isSpace (rev (dropWhile isSpace s)))"

definition normalizeText :: "jsstring \<Rightarrow> jsstring" where
  "normalizeText text =
     trim (replaceChars [39, 39] 39
            (replaceChars [34, 34] 34
              (replaceRuns (\<lambda>c. c = 10) 32
                (replaceRuns isSpace 32 text))))"

text \<open>
  \<open>expandAbbreviations\<close>. The entries are sorted by the length of the abbreviation,
  longest first, by a stable sort; for each entry in that order every match of
  \<open>\babbr\b\<close>, with the flags \<open>g\<close> and \<open>i\<close>, is replaced. No abbreviation holds a
  character that is special in a pattern, and no expansion holds \<open>$\<close>.
\<close>

definition sortedAbbreviations :: "(jsstring \<times> jsstring) list" where
  "sortedAbbreviations = sort_key (\<lambda>(abbr, full). - int (length abbr)) ABBREVIATIONS"

definition abbreviationRegex :: "jsstring \<Rightarrow> regexp" where
  "abbreviationRegex abbr = \<lparr>ignoreCase = True, body = seqs [Boundary, Uni abbr, Boundary]\<rparr>"

definition expandAbbreviations :: "jsstring \<Rightarrow> jsstring" where
  "expandAbbreviations text =
     foldl (\<lambda>expanded (abbr, full). replaceAll (abbreviationRegex abbr) full expanded)
           text sortedAbbreviations"

text \<open>
  The processed text of \<open>extractContent\<close>, with the options the classifier's extractor
  is built with: both steps enabled. The entities that \<open>extractContent\<close> also returns
  (subjects, dates, pages, exercise numbers) fill optional fields of the classified item
  and take no part in the choice of its type or confidence; they are not modelled.
\<close>

definition processedTextOf :: "jsstring \<Rightarrow> jsstring" where
  "processedTextOf text = expandAbbreviations (normalizeText text)"

text \<open>
  \<open>toLowerCase\<close>, on ASCII letters. The result is only split at white space and
  compared with the stop words: no other code unit becomes white space, or a letter of a
  stop word, when lowered (the Kelvin sign becomes \<open>k\<close>, which no stop word holds).
\<close>

definition toLowerCase :: "jsstring \<Rightarrow> jsstring" where
  "toLowerCase s = map (\<lambda>c. if 65 \<le> c \<and> c \<le> 90 then c + 32 else c) s"

text \<open>
  \<open>split(/\s+/)\<close>: the pieces between the maximal runs of white space. A run at the
  start or at the end leaves an empty piece there, and the empty string gives one empty
  piece. The first argument is the current piece, reversed.
\<close>

fun splitFrom :: "jsstring \<Rightarrow> jsstring \<Rightarrow> jsstring list" where
  "splitFrom cur [] = [rev cur]"
| "splitFrom cur [c] = (if isSpace c then [rev cur, []] else [rev (c # cur)])"
| "splitFrom cur (c # d # cs) =
     (if isSpace c
        then (if isSpace d then splitFrom cur (d # cs) else rev cur # splitFrom [] (d # cs))
      else splitFrom (c # cur) (d # cs))"

definition splitWhitespace :: "jsstring \<Rightarrow> jsstring list" where
  "splitWhitespace s = splitFrom [] s"

definition exclamationPattern :: regexp where
  "exclamationPattern = \<lparr>ignoreCase = False, body = OneOf [33]\<rparr>"

definition urgencyPattern :: regexp where
  "urgencyPattern =
     \<lparr>ignoreCase = True,
      body = seqs [Boundary, alts [Str ''urgent'', Str ''important'', Uni [1491, 1495,
             1493, 1507], Uni [1495, 1513, 1493, 1489]], Boundary]\<rparr>"

definition calculateImportance :: "jsstring \<Rightarrow> rat" where
  "calculateImportance text =
     (let words = splitWhitespace (toLowerCase text);
          contentWords = filter (\<lambda>word. word \<notin> set STOP_WORDS) words
      in if length contentWords = 0 then 0
         else
           (let importance = jsDiv (of_nat (length contentWords)) (of_nat (length words));
                importance = (if test HOMEWORK_PATTERNS_keywords text
                              then jsAdd importance (fl (3 / 10)) else importance);
                importance = (if test DATE_PATTERNS_numeric text \<or> test DATE_PATTERNS_relative text
                              then jsAdd importance (fl (2 / 10)) else importance);
                importance = (if test exclamationPattern text
                              then jsAdd importance (fl (1 / 10)) else importance);
                importance = (if test urgencyPattern text
                              then jsAdd importance (fl (4 / 10)) else importance)
            in min importance 1))"

section \<open>ContentExtractor: relative dates of a text\<close>

text \<open>
  The first block of \<open>extractDates\<close>, with the time of \<open>new Date()\<close> and the time
  zone as parameters: the dates that it pushes for \<open>DATE_PATTERNS.relative\<close>, which
  are the first elements of its result. The pattern has no \<open>g\<close> flag, so
  \<open>text.match\<close> gives the array of the first match only, and the loop runs over the
  elements of that array: the text of the match and the text of group 1. The group
  encloses the whole pattern but its two assertions \<open>\b\<close>, which consume nothing, so
  both elements are the same text. Each is lowered and parsed, and every date that is
  not \<open>null\<close> is pushed, an invalid date too. The text of a match holds ASCII
  characters, white space and Hebrew letters only, on which \<open>toLowerCase\<close> is the
  lowering of the ASCII letters. The two later blocks, which push the dates of the
  numeric and of the textual pattern after these, are not modelled.
\<close>

definition relativeMatches :: "jsstring \<Rightarrow> jsstring list option" where
  "relativeMatches text =
     (case matchText DATE_PATTERNS_relative text of
        None \<Rightarrow> None
      | Some m \<Rightarrow> Some [m, m])"

definition extractRelativeDates :: "zone \<Rightarrow> jsstring \<Rightarrow> int \<Rightarrow> int option list" where
  "extractRelativeDates z text now =
     (case relativeMatches text of
        None \<Rightarrow> []
      | Some ms \<Rightarrow>
          concat (map (\<lambda>match. case parseRelativeDate z (toLowerCase match) now of
                                   None \<Rightarrow> []
                                 | Some date \<Rightarrow> [date])
                      ms))"

section \<open>ContentClassifier\<close>

datatype ItemType = homework | schedule_change | announcement

datatype AssignmentType = assignment_exercise | assignment_project | assignment_reading | assignment_other

datatype ChangeType = time_change | location_change | cancellation | reschedule

datatype AnnouncementType = announcement_event | permission_slip | notice | announcement_other

datatype Urgency = high | medium | low

text \<open>The metadata of a message; its timestamp is a \<open>Date\<close>.\<close>

record Metadata =
  chat_id :: jsstring
  sender_id :: jsstring
  timestamp :: "int option"

text \<open>
  A classified item: the fields common to the three kinds, and for each kind the field
  that its detector fills. The optional fields that are copied from the extracted
  entities (subject, dates, pages, location) are left out.
\<close>

datatype Variant =
    HomeworkFields AssignmentType
  | ScheduleChangeFields ChangeType
  | AnnouncementFields AnnouncementType Urgency

record ContentItem =
  itemType :: ItemType
  itemMetadata :: Metadata
  content :: jsstring
  original_message :: jsstring
  variant :: Variant

record ClassificationResult =
  item :: ContentItem
  confidence :: rat

definition actionWords :: regexp where
  "actionWords =
     \<lparr>ignoreCase = True,
      body = seqs [Boundary, alts [Str ''complete'', Str ''finish'', Str ''solve'',
             Str ''write'', Str ''read'', Str ''prepare'', Str ''submit'', Str ''do'',
             Str ''make'', Uni [1492, 1513, 1500, 1497, 1501], Uni [1500, 1508, 1514, 1493,
             1512], Uni [1500, 1499, 1514, 1493, 1489], Uni [1500, 1511, 1512, 1493, 1488],
             Uni [1500, 1492, 1499, 1497, 1503], Uni [1500, 1492, 1490, 1497, 1513],
             Uni [1500, 1506, 1513, 1493, 1514]], Boundary]\<rparr>"

definition dueDateIndicators :: regexp where
  "dueDateIndicators =
     \<lparr>ignoreCase = True,
      body = seqs [Boundary, alts [Str ''due'', Str ''deadline'', Str ''by'',
             Str ''until'', Str ''before'', Str ''submit by'', Uni [1500, 1492, 1490, 1513,
             1492], Uni [1506, 1491], Uni [1500, 1508, 1504, 1497]], Boundary]\<rparr>"

definition calculateHomeworkScore :: "jsstring \<Rightarrow> rat" where
  "calculateHomeworkScore text =
     (let score = 0;
          score = (if test HOMEWORK_PATTERNS_keywords text then jsAdd score (fl (5 / 10)) else score);
          score = (if test HOMEWORK_PATTERNS_pages text then jsAdd score (fl (3 / 10)) else score);
          score = (if test HOMEWORK_PATTERNS_exercise text then jsAdd score (fl (3 / 10)) else score);
          score = (if test HOMEWORK_PATTERNS_chapter text then jsAdd score (fl (2 / 10)) else score);
          score = (if test actionWords text then jsAdd score (fl (2 / 10)) else score);
          score = (if test dueDateIndicators text then jsAdd score (fl (2 / 10)) else score)
      in min score 1)"

definition timeReference :: regexp where
  "timeReference =
     \<lparr>ignoreCase = True,
      body = seqs [Boundary, alts [seqs [Rep 1 2 Digit, Str '':'', Rep 2 2 Digit],
             Str ''morning'', Str ''afternoon'', Str ''evening'', Uni [1489, 1493, 1511,
             1512], Uni [1510, 1492, 1512, 1497, 1497, 1501], Uni [1506, 1512, 1489]],
             Boundary]\<rparr>"

definition dayReference :: regexp where
  "dayReference =
     \<lparr>ignoreCase = True,
      body = seqs [Boundary, alts [Str ''monday'', Str ''tuesday'', Str ''wednesday'',
             Str ''thursday'', Str ''friday'', Str ''saturday'', Str ''sunday'', Uni [1512,
             1488, 1513, 1493, 1503], Uni [1513, 1504, 1497], Uni [1513, 1500, 1497, 1513,
             1497], Uni [1512, 1489, 1497, 1506, 1497], Uni [1495, 1502, 1497, 1513, 1497],
             Uni [1513, 1497, 1513, 1497], Uni [1513, 1489, 1514]], Boundary]\<rparr>"

definition calculateScheduleChangeScore :: "jsstring \<Rightarrow> rat" where
  "calculateScheduleChangeScore text =
     (let score = 0;
          score = (if test SCHEDULE_PATTERNS_keywords text then jsAdd score (fl (5 / 10)) else score);
          score = (if test SCHEDULE_PATTERNS_timeChange text then jsAdd score (fl (4 / 10)) else score);
          score = (if test SCHEDULE_PATTERNS_cancellation text then jsAdd score (fl (5 / 10)) else score);
          score = (if test SCHEDULE_PATTERNS_locationChange text then jsAdd score (fl (3 / 10)) else score);
          score = (if test timeReference text then jsAdd score (fl (2 / 10)) else score);
          score = (if test dayReference text then jsAdd score (fl (2 / 10)) else score)
      in min score 1)"

definition infoIndicators :: regexp where
  "infoIndicators =
     \<lparr>ignoreCase = True,
      body = seqs [Boundary, alts [Str ''please note'', Str ''attention'',
             Str ''important'', Str ''for your information'', Str ''FYI'', Uni [1513, 1497,
             1502, 1493, 32, 1500, 1489], Uni [1495, 1513, 1493, 1489], Uni [1500, 1497,
             1491, 1497, 1506, 1514, 1499, 1501]], Boundary]\<rparr>"

definition calculateAnnouncementScore :: "jsstring \<Rightarrow> rat \<Rightarrow> rat" where
  "calculateAnnouncementScore text baseImportance =
     (let score = baseImportance;
          score = (if test ANNOUNCEMENT_PATTERNS_event text then jsAdd score (fl (3 / 10)) else score);
          score = (if test ANNOUNCEMENT_PATTERNS_permissionSlip text then jsAdd score (fl (4 / 10)) else score);
          score = (if test ANNOUNCEMENT_PATTERNS_urgent text then jsAdd score (fl (3 / 10)) else score);
          score = (if test ANNOUNCEMENT_PATTERNS_reminder text then jsAdd score (fl (2 / 10)) else score);
          score = (if test infoIndicators text then jsAdd score (fl (2 / 10)) else score)
      in min score 1)"

definition exercisePattern :: regexp where
  "exercisePattern =
     \<lparr>ignoreCase = True,
      body = seqs [Boundary, alts [Str ''exercise'', Uni [1514, 1512, 1490, 1497, 1500],
             Uni [1514, 1512, 1490, 1497, 1500, 1497, 1501]], Boundary]\<rparr>"

definition projectPattern :: regexp where
  "projectPattern =
     \<lparr>ignoreCase = True,
      body = seqs [Boundary, alts [Str ''project'', Uni [1508, 1512, 1493, 1497, 1511,
             1496], Uni [1506, 1489, 1493, 1491, 1492]], Boundary]\<rparr>"

definition readingPattern :: regexp where
  "readingPattern =
     \<lparr>ignoreCase = True,
      body = seqs [Boundary, alts [Str ''read'', Str ''reading'', Str ''chapter'',
             Str ''pages'', Uni [1500, 1511, 1512, 1493, 1488], Uni [1511, 1512, 1497,
             1488, 1492], Uni [1508, 1512, 1511], Uni [1506, 1502, 1493, 1491, 1497,
             1501]], Boundary]\<rparr>"

definition detectAssignmentType :: "jsstring \<Rightarrow> AssignmentType" where
  "detectAssignmentType text =
     (if test exercisePattern text then assignment_exercise
      else if test projectPattern text then assignment_project
      else if test readingPattern text then assignment_reading
      else assignment_other)"

definition detectChangeType :: "jsstring \<Rightarrow> ChangeType" where
  "detectChangeType text =
     (if test SCHEDULE_PATTERNS_cancellation text then cancellation
      else if test SCHEDULE_PATTERNS_locationChange text then location_change
      else if test SCHEDULE_PATTERNS_timeChange text then time_change
      else reschedule)"

definition detectAnnouncementType :: "jsstring \<Rightarrow> AnnouncementType" where
  "detectAnnouncementType text =
     (if test ANNOUNCEMENT_PATTERNS_event text then announcement_event
      else if test ANNOUNCEMENT_PATTERNS_permissionSlip text then permission_slip
      else if test ANNOUNCEMENT_PATTERNS_reminder text \<or> test ANNOUNCEMENT_PATTERNS_urgent text
        then notice
      else announcement_other)"

definition detectUrgency :: "jsstring \<Rightarrow> Urgency" where
  "detectUrgency text =
     (if test IMPORTANCE_INDICATORS_high text then high
      else if test IMPORTANCE_INDICATORS_medium text then medium
      else if test IMPORTANCE_INDICATORS_low text then low
      else medium)"

definition createHomeworkItem ::
  "jsstring \<Rightarrow> jsstring \<Rightarrow> Metadata \<Rightarrow> rat \<Rightarrow> ClassificationResult" where
  "createHomeworkItem processedText originalMessage metadata conf =
     \<lparr>item = \<lparr>itemType = homework, itemMetadata = metadata, content = processedText,
               original_message = originalMessage,
               variant = HomeworkFields (detectAssignmentType processedText)\<rparr>,
      confidence = conf\<rparr>"

definition createScheduleChangeItem ::
  "jsstring \<Rightarrow> jsstring \<Rightarrow> Metadata \<Rightarrow> rat \<Rightarrow> ClassificationResult" where
  "createScheduleChangeItem processedText originalMessage metadata conf =
     \<lparr>item = \<lparr>itemType = schedule_change, itemMetadata = metadata, content = processedText,
               original_message = originalMessage,
               variant = ScheduleChangeFields (detectChangeType processedText)\<rparr>,
      confidence = conf\<rparr>"

definition createAnnouncementItem ::
  "jsstring \<Rightarrow> jsstring \<Rightarrow> Metadata \<Rightarrow> rat \<Rightarrow> ClassificationResult" where
  "createAnnouncementItem processedText originalMessage metadata conf =
     \<lparr>item = \<lparr>itemType = announcement, itemMetadata = metadata, content = processedText,
               original_message = originalMessage,
               variant = AnnouncementFields (detectAnnouncementType processedText)
                                            (detectUrgency processedText)\<rparr>,
      confidence = conf\<rparr>"

text \<open>
  \<open>classifyMessage\<close> returns a result or \<open>null\<close>. Its body is inside a \<open>try\<close> whose
  handler returns \<open>null\<close>; on a string nothing in it throws.
\<close>

definition classifyMessage :: "jsstring \<Rightarrow> Metadata \<Rightarrow> ClassificationResult option" where
  "classifyMessage message metadata =
     (let processedText = processedTextOf message;
          importance = calculateImportance processedText
      in if importance < fl (1 / 10) then None
         else
           (let homeworkScore = calculateHomeworkScore processedText
            in if fl (6 / 10) < homeworkScore
                 then Some (createHomeworkItem processedText message metadata homeworkScore)
               else
                 (let scheduleScore = calculateScheduleChangeScore processedText
                  in if fl (6 / 10) < scheduleScore
                       then Some (createScheduleChangeItem processedText message metadata
                                    scheduleScore)
                     else
                       (let announcementScore =
                              calculateAnnouncementScore processedText importance
                        in if fl (4 / 10) < announcementScore
                             then Some (createAnnouncementItem processedText message metadata
                                          announcementScore)
                           else None))))"

section \<open>Specification of the filter\<close>

text \<open>
  What \<open>removeDuplicates\<close> returns, as a function of the keys already seen.
\<close>

fun dedupFrom :: "jsstring list \<Rightarrow> jsval list \<Rightarrow> jsval list" where
  "dedupFrom seen [] = []"
| "dedupFrom seen (m # ms) =
     (if messageKey m \<notin> set seen then m # dedupFrom (messageKey m # seen) ms
      else dedupFrom seen ms)"

text \<open>
  The constraint that each error names. A timestamp is valid when parsing it and
  formatting the result gives the same string back.
\<close>

definition roundTrips :: "jsval \<Rightarrow> bool" where
  "roundTrips v =
     (case v of
        JStr s \<Rightarrow> (case dateParse s of Some t \<Rightarrow> toISOString t = s | None \<Rightarrow> False)
      | _ \<Rightarrow> False)"

definition nonEmptyString :: "jsval \<Rightarrow> bool" where
  "nonEmptyString v = (case v of JStr s \<Rightarrow> s \<noteq> [] | _ \<Rightarrow> False)"

fun violated :: "error \<Rightarrow> jsval \<Rightarrow> bool" where
  "violated InputNull input = (\<not> truthy input)"
| "violated MessagesNotArray input = (\<not> isArray (getProp input (asc ''messages'')))"
| "violated SubscribedNotArray input = (\<not> isArray (getProp input (asc ''subscribed_chats'')))"
| "violated PeriodNotObject input =
     (\<not> (truthy (getProp input (asc ''period'')) \<and> typeofObject (getProp input (asc ''period''))))"
| "violated PeriodStartInvalid input =
     (\<not> roundTrips (getProp (getProp input (asc ''period'')) (asc ''start'')))"
| "violated PeriodEndInvalid input =
     (\<not> roundTrips (getProp (getProp input (asc ''period'')) (asc ''end'')))"
| "violated PeriodStartNotBeforeEnd input =
     dateGe (newDate (getProp (getProp input (asc ''period'')) (asc ''start'')))
            (newDate (getProp (getProp input (asc ''period'')) (asc ''end'')))"
| "violated MessageNotObject input =
     list_ex (\<lambda>m. \<not> (truthy m \<and> typeofObject m)) (elems (getProp input (asc ''messages'')))"
| "violated MessageChatId input =
     list_ex (\<lambda>m. \<not> nonEmptyString (getProp m (asc ''chat_id'')))
             (elems (getProp input (asc ''messages'')))"
| "violated MessageSenderId input =
     list_ex (\<lambda>m. \<not> nonEmptyString (getProp m (asc ''sender_id'')))
             (elems (getProp input (asc ''messages'')))"
| "violated MessageTimestamp input =
     list_ex (\<lambda>m. \<not> roundTrips (getProp m (asc ''timestamp'')))
             (elems (getProp input (asc ''messages'')))"
| "violated MessageText input =
     list_ex (\<lambda>m. \<not> typeofString (getProp m (asc ''text'')))
             (elems (getProp input (asc ''messages'')))"

definition allErrors :: "error list" where
  "allErrors = [InputNull, MessagesNotArray, SubscribedNotArray, PeriodNotObject,
                PeriodStartInvalid, PeriodEndInvalid, PeriodStartNotBeforeEnd, MessageNotObject,
                MessageChatId, MessageSenderId, MessageTimestamp, MessageText]"

definition wellFormed :: "jsval \<Rightarrow> bool" where
  "wellFormed input = list_all (\<lambda>e. \<not> violated e input) allErrors"

subsection \<open>Example inputs\<close>

definition mkMessage :: "string \<Rightarrow> string \<Rightarrow> string \<Rightarrow> string \<Rightarrow> jsval" where
  "mkMessage chat sender ts txt =
     JObj [(asc ''chat_id'', JStr (asc chat)), (asc ''sender_id'', JStr (asc sender)),
           (asc ''timestamp'', JStr (asc ts)), (asc ''text'', JStr (asc txt))]"

definition mkInput :: "jsval list \<Rightarrow> string list \<Rightarrow> string \<Rightarrow> string \<Rightarrow> jsval" where
  "mkInput msgs chats s e =
     JObj [(asc ''messages'', JArr msgs),
           (asc ''subscribed_chats'', JArr (map (\<lambda>c. JStr (asc c)) chats)),
           (asc ''period'', JObj [(asc ''start'', JStr (asc s)), (asc ''end'', JStr (asc e))])]"

definition msgAtStart :: jsval where
  "msgAtStart = mkMessage ''class-5a'' ''teacher'' ''2025-01-15T10:00:00.000Z'' ''Bring a pencil''"

definition msgAtEnd :: jsval where
  "msgAtEnd = mkMessage ''class-5a'' ''teacher'' ''2025-01-31T23:59:59.999Z'' ''Bring a pencil''"

definition msgOtherChat :: jsval where
  "msgOtherChat = mkMessage ''class-6b'' ''teacher'' ''2025-01-20T08:30:00.000Z'' ''Bring a pencil''"

definition exampleInput :: jsval where
  "exampleInput =
     mkInput [msgAtStart, msgOtherChat, msgAtStart, msgAtEnd] [''class-5a'']
             ''2025-01-15T10:00:00.000Z'' ''2025-01-31T23:59:59.999Z''"

definition exampleResult :: FilterResult where
  "exampleResult =
     \<lparr>messages = [msgAtStart],
      stats = \<lparr>totalProcessed = 4, filteredBySubscription = 1, filteredByTimePeriod = 1,
               duplicatesRemoved = 1, finalCount = 1\<rparr>\<rparr>"

definition exampleCache :: cache where
  "exampleCache = [asc ''class-5a:teacher:2025-01-15T10:00:00.000Z:Bring a pencil'']"

definition reversedPeriodInput :: jsval where
  "reversedPeriodInput =
     mkInput [msgAtStart] [''class-5a''] ''2025-01-31T23:59:59.999Z'' ''2025-01-15T10:00:00.000Z''"

definition collisionFirst :: jsval where
  "collisionFirst = mkMessage ''a:b'' ''c'' ''2025-01-15T10:00:00.000Z'' ''hello''"

definition collisionSecond :: jsval where
  "collisionSecond = mkMessage ''a'' ''b:c'' ''2025-01-15T10:00:00.000Z'' ''hello''"

definition collisionInput :: jsval where
  "collisionInput =
     mkInput [collisionFirst, collisionSecond] [''a:b'', ''a'']
             ''2025-01-01T00:00:00.000Z'' ''2025-02-01T00:00:00.000Z''"

text \<open>The tuple of fields by which duplicates are recognised.\<close>

definition messageTuple :: "jsval \<Rightarrow> jsval \<times> jsval \<times> jsval \<times> jsval" where
  "messageTuple m = (getProp m (asc ''chat_id''), getProp m (asc ''sender_id''),
                     getProp m (asc ''timestamp''), getProp m (asc ''text''))"

section \<open>Specification of the date parsers\<close>





text \<open>
  The number of days of claim C7, with the weekday of local time, and what it asks of
  the time zone: that at the time \<open>u\<close>, read as a time value and as the local time
  shown then, the zone has the offset that it has at the time \<open>t\<close>.
\<close>

definition daysUntilFriday :: "zone \<Rightarrow> int \<Rightarrow> int" where
  "daysUntilFriday z now = (5 - getDay z now + 7) mod 7"

definition sameOffset :: "zone \<Rightarrow> int \<Rightarrow> int \<Rightarrow> bool" where
  "sameOffset z t u = (z u True = z t True \<and> z (u + z t True) False = z t True)"



definition jerusalemSpring :: zone where
  "jerusalemSpring =
     (\<lambda>t isUTC. if isUTC then (if t < 1743120000000 then 7200000 else 10800000)
                else (if t < 1743120000000 + 10800000 then 7200000 else 10800000))"





definition wednesdayBeforeChange :: int where
  "wednesdayBeforeChange = 1742976000000"

section \<open>Specification of the importance score and of the classifier\<close>

text \<open>
  The list \<open>contentWords\<close> of \<open>calculateImportance\<close>: the pieces of
  \<open>split(/\s+/)\<close> of the lowered text that are not stop words. The empty piece,
  which the split gives for an empty text and at white space at the start or at the end
  of a text, is one of them.
\<close>

definition nonStopwordTokens :: "jsstring \<Rightarrow> jsstring list" where
  "nonStopwordTokens text =
     filter (\<lambda>word. word \<notin> set STOP_WORDS) (splitWhitespace (toLowerCase text))"

text \<open>
  The tokens of a text in the words of claim C3: its maximal runs of code units that
  are not white space, so that no token is empty and the empty text has none. The first
  argument of \<open>tokensFrom\<close> is the current token, reversed. \<open>contentTokens\<close> are the
  tokens that, lowered, are not stop words, and \<open>contentRatio\<close> is their share of all
  tokens.
\<close>

fun tokensFrom :: "jsstring \<Rightarrow> jsstring \<Rightarrow> jsstring list" where
  "tokensFrom cur [] = (if cur = [] then [] else [rev cur])"
| "tokensFrom cur (c # cs) =
     (if isSpace c then (if cur = [] then tokensFrom [] cs else rev cur # tokensFrom [] cs)
      else tokensFrom (c # cur) cs)"

definition tokens :: "jsstring \<Rightarrow> jsstring list" where
  "tokens text = tokensFrom [] text"

definition contentTokens :: "jsstring \<Rightarrow> jsstring list" where
  "contentTokens text =
     filter (\<lambda>word. toLowerCase word \<notin> set STOP_WORDS) (tokens text)"

definition contentRatio :: "jsstring \<Rightarrow> rat" where
  "contentRatio text =
     jsDiv (of_nat (length (contentTokens text))) (of_nat (length (tokens text)))"

text \<open>
  The importance score as a formula: the ratio, plus each boost that applies, added in
  the order given, clamped to the interval from 0 to 1; 0 when no token is left. The
  formula takes the test for a date as a parameter.
\<close>

definition boost :: "bool \<Rightarrow> rat \<Rightarrow> rat" where
  "boost applies amount = (if applies then fl amount else 0)"

definition importanceFormula :: "(jsstring \<Rightarrow> bool) \<Rightarrow> jsstring \<Rightarrow> rat" where
  "importanceFormula dateMatches text =
     (if contentTokens text = [] then 0
      else min 1 (max 0
             (foldl jsAdd (contentRatio text)
                [boost (test HOMEWORK_PATTERNS_keywords text) (3 / 10),
                 boost (dateMatches text) (2 / 10),
                 boost (test exclamationPattern text) (1 / 10),
                 boost (test urgencyPattern text) (4 / 10)])))"

text \<open>
  A text that is not empty and neither starts nor ends with white space, as a message
  is after \<open>normalizeText\<close> unless it is empty.
\<close>

definition trimmed :: "jsstring \<Rightarrow> bool" where
  "trimmed text = (text \<noteq> [] \<and> \<not> isSpace (hd text) \<and> \<not> isSpace (last text))"

text \<open>
  "Any date pattern matches": one of the five patterns of \<open>DATE_PATTERNS\<close>. This is
  the score in the words of claim C3.
\<close>

definition anyDatePattern :: "jsstring \<Rightarrow> bool" where
  "anyDatePattern text =
     (test DATE_PATTERNS_relative text \<or> test DATE_PATTERNS_numeric text
      \<or> test DATE_PATTERNS_textual text \<or> test DATE_PATTERNS_weekday text
      \<or> test DATE_PATTERNS_time text)"

definition importanceAsClaimed :: "jsstring \<Rightarrow> rat" where
  "importanceAsClaimed = importanceFormula anyDatePattern"

text \<open>The two date patterns that \<open>calculateImportance\<close> tests.\<close>

definition numericOrRelativeDate :: "jsstring \<Rightarrow> bool" where
  "numericOrRelativeDate text =
     (test DATE_PATTERNS_numeric text \<or> test DATE_PATTERNS_relative text)"

subsection \<open>Example messages\<close>

definition exampleMetadata :: Metadata where
  "exampleMetadata =
     \<lparr>chat_id = asc ''class-5a'', sender_id = asc ''teacher'', timestamp = Some 1736935200000\<rparr>"

text \<open>
  A message of eleven tokens of which ten are stop words, with a page reference, an
  action verb and a deadline word; a message with homework and cancellation words; and
  a message with a room, a time and a weekday.
\<close>

definition lowSignalHomework :: jsstring where
  "lowSignalHomework = asc ''do by the the the the the the the the page5''"

definition homeworkAndCancellation :: jsstring where
  "homeworkAndCancellation = asc ''homework due class cancelled''"

definition roomChange :: jsstring where
  "roomChange = asc ''room 10:30 monday''"

section \<open>Properties of rounding\<close>

lemma bitLength_bounds:
  "0 < n \<Longrightarrow> 1 \<le> bitLength n \<and> 2 ^ nat (bitLength n - 1) \<le> n \<and> n < 2 ^ nat (bitLength n)"
proof (induction n rule: bitLength.induct)
  case (1 n)
  show ?case
  proof (cases "n div 2 \<le> 0")
    case True
    with "1.prems" have n: "n = 1" by linarith
    have "bitLength 1 = 1" by (simp add: bitLength.simps)
    with n show ?thesis by simp
  next
    case False
    then have pos: "0 < n div 2" by simp
    from "1.IH" [OF _ pos] "1.prems"
    have ih: "1 \<le> bitLength (n div 2)" "2 ^ nat (bitLength (n div 2) - 1) \<le> n div 2"
      "n div 2 < 2 ^ nat (bitLength (n div 2))" by simp_all
    define b where "b = bitLength (n div 2)"
    have bl: "bitLength n = 1 + b"
      using "1.prems" by (subst bitLength.simps) (simp add: b_def)
    have nb: "nat (1 + b) = Suc (nat b)" "nat (1 + b - 1) = Suc (nat (b - 1))"
      using ih(1) unfolding b_def by simp_all
    have d: "2 * (n div 2) \<le> n" "n < 2 * (n div 2) + 2" by simp_all
    have "2 ^ nat (bitLength n - 1) \<le> n"
      unfolding bl nb using ih(2) d(1) unfolding b_def by simp
    moreover have "n < 2 ^ nat (bitLength n)"
      unfolding bl nb using ih(3) d(2) unfolding b_def by simp
    ultimately show ?thesis using ih(1) bl unfolding b_def by simp
  qed
qed

lemma powi_nat: "0 \<le> e \<Longrightarrow> (2::rat) powi e = 2 ^ nat e"
  by (simp add: power_int_def)

lemma powi_pos: "0 < (2::rat) powi e"
  by (simp add: power_int_def)

lemma powi_mono: "a \<le> b \<Longrightarrow> (2::rat) powi a \<le> 2 powi b"
  by (rule power_int_increasing) simp_all

lemma powi_Suc: "(2::rat) powi (e + 1) = 2 * 2 powi e"
  by (simp add: power_int_add)

lemma powi_diff: "(2::rat) powi (a - b) = 2 powi a / 2 powi b"
  by (simp add: power_int_diff)

lemma of_int_bitLength:
  assumes "0 < n"
  shows "2 powi (bitLength n - 1) \<le> (of_int n :: rat)" and "(of_int n :: rat) < 2 powi bitLength n"
proof -
  from bitLength_bounds [OF assms]
  have b: "1 \<le> bitLength n" "2 ^ nat (bitLength n - 1) \<le> n" "n < 2 ^ nat (bitLength n)"
    by simp_all
  have "(of_int (2 ^ nat (bitLength n - 1)) :: rat) \<le> of_int n"
    using b(2) by (simp only: of_int_le_iff)
  then show "2 powi (bitLength n - 1) \<le> (of_int n :: rat)"
    using b(1) by (simp add: powi_nat)
  have "(of_int n :: rat) < of_int (2 ^ nat (bitLength n))"
    using b(3) by (simp only: of_int_less_iff)
  then show "(of_int n :: rat) < 2 powi bitLength n"
    using b(1) by (simp add: powi_nat)
qed

lemma exponentOf_bounds:
  assumes "0 < x"
  shows "2 powi exponentOf x \<le> x" and "x < 2 powi (exponentOf x + 1)"
proof -
  obtain p q where pq: "quotient_of x = (p, q)" by (cases "quotient_of x")
  then have q: "0 < q" and x: "x = of_int p / of_int q"
    by (simp_all add: quotient_of_denom_pos quotient_of_div)
  from assms x q have p: "0 < p" by (simp add: zero_less_divide_iff)
  define e0 where "e0 = bitLength p - bitLength q"
  have qr: "(0::rat) < of_int q" using q by simp
  have up: "x < 2 powi (e0 + 1)"
  proof -
    have "x * of_int q = of_int p" using x qr by simp
    also have "\<dots> < 2 powi bitLength p" by (rule of_int_bitLength [OF p])
    also have "\<dots> = 2 powi (e0 + 1) * 2 powi (bitLength q - 1)"
      by (simp add: e0_def power_int_add [symmetric])
    also have "\<dots> \<le> 2 powi (e0 + 1) * of_int q"
      using of_int_bitLength(1) [OF q] powi_pos [of "e0 + 1"] by (intro mult_left_mono) simp_all
    finally show ?thesis using qr by simp
  qed
  have lo: "2 powi (e0 - 1) \<le> x"
  proof -
    have "(2::rat) powi (e0 - 1) * of_int q \<le> 2 powi (e0 - 1) * 2 powi bitLength q"
      using of_int_bitLength(2) [OF q] powi_pos [of "e0 - 1"] by (intro mult_left_mono) simp_all
    also have "\<dots> = 2 powi (bitLength p - 1)"
      by (simp add: e0_def power_int_add [symmetric])
    also have "\<dots> \<le> of_int p" by (rule of_int_bitLength [OF p])
    also have "\<dots> = x * of_int q" using x qr by simp
    finally show ?thesis using qr by simp
  qed
  have ex: "exponentOf x = (if 2 powi e0 \<le> x then e0 else e0 - 1)"
    by (simp add: exponentOf_def pq e0_def Let_def)
  show "2 powi exponentOf x \<le> x" using lo by (simp add: ex)
  show "x < 2 powi (exponentOf x + 1)" using up by (auto simp: ex)
qed

lemma exponentOf_unique:
  assumes "2 powi e \<le> x" and "x < 2 powi (e + 1)"
  shows "exponentOf x = e"
proof -
  have x: "0 < x" using powi_pos [of e] assms(1) by linarith
  note b = exponentOf_bounds [OF x]
  have "\<not> exponentOf x + 1 \<le> e"
  proof
    assume "exponentOf x + 1 \<le> e"
    from powi_mono [OF this] b(2) assms(1) show False by linarith
  qed
  moreover have "\<not> e + 1 \<le> exponentOf x"
  proof
    assume "e + 1 \<le> exponentOf x"
    from powi_mono [OF this] b(1) assms(2) show False by linarith
  qed
  ultimately show ?thesis by linarith
qed

lemma exponentOf_mono:
  assumes "0 < x" and "x \<le> y"
  shows "exponentOf x \<le> exponentOf y"
proof (rule ccontr)
  assume "\<not> exponentOf x \<le> exponentOf y"
  then have "exponentOf y + 1 \<le> exponentOf x" by simp
  from powi_mono [OF this] exponentOf_bounds(1) [OF assms(1)]
    exponentOf_bounds(2) [of y] assms
  show False by linarith
qed

lemma roundHalfEven_bounds: "\<lfloor>q\<rfloor> \<le> roundHalfEven q \<and> roundHalfEven q \<le> \<lfloor>q\<rfloor> + 1"
  by (simp add: roundHalfEven_def Let_def)

lemma roundHalfEven_of_int [simp]: "roundHalfEven (of_int k) = k"
  by (simp add: roundHalfEven_def Let_def)

lemma roundHalfEven_mono:
  assumes "a \<le> b"
  shows "roundHalfEven a \<le> roundHalfEven b"
proof (cases "\<lfloor>a\<rfloor> = \<lfloor>b\<rfloor>")
  case True
  then have "a - of_int \<lfloor>a\<rfloor> \<le> b - of_int \<lfloor>b\<rfloor>" using assms by simp
  then show ?thesis
    using True by (auto simp: roundHalfEven_def Let_def)
next
  case False
  with assms have "\<lfloor>a\<rfloor> + 1 \<le> \<lfloor>b\<rfloor>"
    using floor_mono [OF assms] by linarith
  with roundHalfEven_bounds [of a] roundHalfEven_bounds [of b] show ?thesis by linarith
qed

lemma fl_nonpos [simp]: "x \<le> 0 \<Longrightarrow> fl x = 0"
  by (simp add: fl_def)

lemma fl_pos_bounds:
  assumes "0 < x"
  shows "2 powi exponentOf x \<le> fl x" and "fl x \<le> 2 powi (exponentOf x + 1)"
proof -
  define e where "e = exponentOf x"
  define u :: rat where "u = 2 powi (e - 52)"
  have u: "0 < u" by (simp add: u_def powi_pos)
  have flx: "fl x = of_int (roundHalfEven (x / u)) * u"
    using assms by (simp add: fl_def Let_def u_def e_def)
  have p52: "2 powi e = 2 ^ 52 * u" "2 powi (e + 1) = 2 ^ 53 * u"
    by (simp_all add: u_def power_int_diff power_int_add)
  from exponentOf_bounds [OF assms]
  have "2 ^ 52 * u \<le> x" "x < 2 ^ 53 * u" unfolding e_def [symmetric] p52 by simp_all
  then have q: "of_int (2 ^ 52) \<le> x / u" "x / u \<le> of_int (2 ^ 53)"
    using u by (simp_all add: pos_le_divide_eq pos_divide_le_eq)
  have "roundHalfEven (of_int (2 ^ 52)) \<le> roundHalfEven (x / u)"
    "roundHalfEven (x / u) \<le> roundHalfEven (of_int (2 ^ 53))"
    by (rule roundHalfEven_mono [OF q(1)], rule roundHalfEven_mono [OF q(2)])
  then have k: "2 ^ 52 \<le> roundHalfEven (x / u)" "roundHalfEven (x / u) \<le> 2 ^ 53"
    by (simp_all only: roundHalfEven_of_int)
  have "(of_int (2 ^ 52) :: rat) \<le> of_int (roundHalfEven (x / u))"
    using k(1) by (simp only: of_int_le_iff)
  then have "2 ^ 52 * u \<le> of_int (roundHalfEven (x / u)) * u"
    using u by (intro mult_right_mono) simp_all
  then show "2 powi exponentOf x \<le> fl x"
    unfolding e_def [symmetric] p52 flx .
  have "(of_int (roundHalfEven (x / u)) :: rat) \<le> of_int (2 ^ 53)"
    using k(2) by (simp only: of_int_le_iff)
  then have "of_int (roundHalfEven (x / u)) * u \<le> 2 ^ 53 * u"
    using u by (intro mult_right_mono) simp_all
  then show "fl x \<le> 2 powi (exponentOf x + 1)"
    unfolding e_def [symmetric] p52 flx .
qed

lemma fl_nonneg: "0 \<le> fl x"
proof (cases "0 < x")
  case True
  from fl_pos_bounds(1) [OF True] powi_pos [of "exponentOf x"] show ?thesis by linarith
next
  case False
  then show ?thesis by simp
qed

lemma fl_mono:
  assumes "x \<le> y"
  shows "fl x \<le> fl y"
proof (cases "0 < x")
  case False
  then show ?thesis using fl_nonneg [of y] by simp
next
  case True
  then have y: "0 < y" using assms by linarith
  show ?thesis
  proof (cases "exponentOf x = exponentOf y")
    case True
    define u :: rat where "u = 2 powi (exponentOf y - 52)"
    have u: "0 < u" by (simp add: u_def powi_pos)
    have "x / u \<le> y / u" using assms u by (simp add: divide_right_mono)
    then have "roundHalfEven (x / u) \<le> roundHalfEven (y / u)" by (rule roundHalfEven_mono)
    then have "(of_int (roundHalfEven (x / u)) :: rat) \<le> of_int (roundHalfEven (y / u))"
      by (simp only: of_int_le_iff)
    then have "of_int (roundHalfEven (x / u)) * u \<le> of_int (roundHalfEven (y / u)) * u"
      using u by (intro mult_right_mono) simp_all
    then show ?thesis
      using \<open>0 < x\<close> y True by (simp add: fl_def Let_def u_def)
  next
    case False
    with exponentOf_mono [OF \<open>0 < x\<close> assms] have "exponentOf x + 1 \<le> exponentOf y" by simp
    from powi_mono [OF this] fl_pos_bounds(2) [OF \<open>0 < x\<close>] fl_pos_bounds(1) [OF y]
    show ?thesis by linarith
  qed
qed

lemma fl_idem: "fl (fl x) = fl x"
proof (cases "0 < x")
  case False
  then show ?thesis by simp
next
  case True
  define e where "e = exponentOf x"
  define u :: rat where "u = 2 powi (e - 52)"
  define k where "k = roundHalfEven (x / u)"
  have u: "0 < u" by (simp add: u_def powi_pos)
  have flx: "fl x = of_int k * u"
    using True by (simp add: fl_def Let_def u_def e_def k_def)
  have p52: "2 powi e = 2 ^ 52 * u" "2 powi (e + 1) = 2 ^ 53 * u"
    by (simp_all add: u_def power_int_diff power_int_add)
  from fl_pos_bounds [OF True]
  have b: "2 ^ 52 * u \<le> of_int k * u" "of_int k * u \<le> 2 ^ 53 * u"
    unfolding e_def [symmetric] p52 flx by simp_all
  show ?thesis
  proof (cases "of_int k * u < 2 ^ 53 * u")
    case True
    have "exponentOf (of_int k * u) = e"
      by (rule exponentOf_unique) (use b(1) True in \<open>simp_all only: p52\<close>)
    moreover have "0 < of_int k * u"
    proof -
      have "(0::rat) < 2 ^ 52 * u" using u by simp
      with b(1) show ?thesis by linarith
    qed
    ultimately have "fl (of_int k * u) = of_int (roundHalfEven (of_int k * u / u)) * u"
      by (simp add: fl_def Let_def u_def)
    also have "of_int k * u / u = (of_int k :: rat)" using u by simp
    finally show ?thesis by (simp add: flx)
  next
    case False
    with b(2) have top: "of_int k * u = 2 ^ 53 * u" by linarith
    define u' :: rat where "u' = 2 powi (e + 1 - 52)"
    have u': "u' = 2 * u" "0 < u'"
      by (simp_all add: u'_def u_def power_int_diff power_int_add powi_pos)
    have v: "2 ^ 53 * u = 2 powi (e + 1)" by (simp add: p52)
    have ex: "exponentOf (2 powi (e + 1)) = e + 1"
      by (rule exponentOf_unique) (simp_all add: power_int_add)
    have "(2::rat) powi (e + 1) / u' = of_int (2 ^ 52)"
      using u by (simp add: u' p52)
    then have "roundHalfEven ((2::rat) powi (e + 1) / u') = 2 ^ 52"
      by (simp only: roundHalfEven_of_int)
    moreover have np: "\<not> (2::rat) powi (e + 1) \<le> 0"
      using powi_pos [of "e + 1"] by linarith
    ultimately have "fl (2 powi (e + 1)) = of_int (2 ^ 52) * u'"
      unfolding fl_def Let_def ex u'_def [symmetric] by (simp only: np if_False)
    also have "\<dots> = 2 powi (e + 1)" by (simp add: u' p52)
    finally show ?thesis unfolding flx top v .
  qed
qed

lemma jsAdd_ge:
  assumes "fl a = a" and "0 \<le> b"
  shows "a \<le> jsAdd a b"
proof -
  have "fl a \<le> fl (a + b)" using assms(2) by (intro fl_mono) simp
  then show ?thesis by (simp add: jsAdd_def assms(1))
qed

lemma jsAdd_double: "fl (jsAdd a b) = jsAdd a b"
  by (simp add: jsAdd_def fl_idem)

lemma jsDiv_double: "fl (jsDiv a b) = jsDiv a b"
  by (simp add: jsDiv_def fl_idem)

lemma fl_one: "fl 1 = 1"
  by code_simp

lemma fl_zero: "fl 0 = 0"
  by simp

section \<open>Properties of the filter\<close>

lemma removeDuplicatesLoop_unique:
  "fst (snd (removeDuplicatesLoop opts ms (seen, uniq, c))) = uniq @ dedupFrom seen ms"
  by (induction ms arbitrary: seen uniq c) (simp_all add: getMessageKey_def Let_def)

lemma removeDuplicates_unique: "fst (removeDuplicates opts c ms) = dedupFrom [] ms"
  using removeDuplicatesLoop_unique [of opts ms "[]" "[]" c]
  by (cases "removeDuplicatesLoop opts ms ([], [], c)") (auto simp: removeDuplicates_def)

lemma dedupFrom_subset: "set (dedupFrom seen ms) \<subseteq> set ms"
  by (induction ms arbitrary: seen) auto

lemma dedupFrom_keys:
  "messageKey ` set (dedupFrom seen ms) = messageKey ` set ms - set seen"
  by (induction ms arbitrary: seen) auto

lemma dedupFrom_length: "length (dedupFrom seen ms) \<le> length ms"
  by (induction ms arbitrary: seen) (auto simp: le_SucI)

lemma validateMessages_None:
  "validateMessages ms = None \<Longrightarrow> m \<in> set ms \<Longrightarrow> validateMessage m = None"
  by (induction ms) (auto split: option.splits)

lemma isValidTimestamp_parsed:
  "isValidTimestamp v \<Longrightarrow> \<exists>s t. v = JStr s \<and> s \<noteq> [] \<and> dateParse s = Some t \<and> toISOString t = s"
  by (cases v) (auto simp: isValidTimestamp_def split: if_splits option.splits)

lemma filter_mf_Inr:
  "filter_mf opts c input = Inr (res, c') \<Longrightarrow>
     validateInput input = None \<and> messages res = dedupFrom [] (timeFilteredMessages input)"
  using removeDuplicates_unique [of opts c "timeFilteredMessages input"]
  by (auto simp: filter_mf_def Let_def split: option.splits prod.splits)

text \<open>
  Claim C10. Whenever \<open>filter\<close> returns, its counters are conserved: the number of
  messages processed is the sum of those rejected by the subscription filter, those
  rejected by the time filter, the duplicates removed and the final count; and the final
  count is the length of the returned list.
\<close>

theorem filter_counters_conserved:
  assumes "filter_mf opts c input = Inr (res, c')"
  shows "totalProcessed (stats res)
           = filteredBySubscription (stats res) + filteredByTimePeriod (stats res)
             + duplicatesRemoved (stats res) + finalCount (stats res)
         \<and> finalCount (stats res) = int (length (messages res))"
proof -
  let ?msgs = "elems (getProp input (asc ''messages''))"
  let ?per = "getProp input (asc ''period'')"
  have a: "length ?msgs = length (subscribedMessages input)
             + length (filter (\<lambda>message. \<not> isSubscribed input message) ?msgs)"
    unfolding subscribedMessages_def
    using sum_length_filter_compl [of "isSubscribed input" ?msgs] by simp
  have b: "length (subscribedMessages input) = length (timeFilteredMessages input)
             + length (filter (\<lambda>message. \<not> isMessageInPeriod message ?per) (subscribedMessages input))"
    unfolding timeFilteredMessages_def
    using sum_length_filter_compl [of "\<lambda>message. isMessageInPeriod message ?per" "subscribedMessages input"]
    by simp
  from assms show ?thesis
    using a b
    by (auto simp: filter_mf_def Let_def split: option.splits prod.splits)
qed

lemma validated_period:
  assumes "validateInput input = None"
  shows "\<exists>s e. newDate (getProp (getProp input (asc ''period'')) (asc ''start'')) = Some s
           \<and> newDate (getProp (getProp input (asc ''period'')) (asc ''end'')) = Some e \<and> s < e"
proof -
  let ?p = "getProp input (asc ''period'')"
  from assms have v1: "isValidTimestamp (getProp ?p (asc ''start''))"
    and v2: "isValidTimestamp (getProp ?p (asc ''end''))"
    and lt: "\<not> dateGe (newDate (getProp ?p (asc ''start''))) (newDate (getProp ?p (asc ''end'')))"
    by (auto simp: validateInput_def Let_def split: if_splits)
  from isValidTimestamp_parsed [OF v1] obtain s1 t1
    where s: "getProp ?p (asc ''start'') = JStr s1" "dateParse s1 = Some t1" by blast
  from isValidTimestamp_parsed [OF v2] obtain s2 t2
    where e: "getProp ?p (asc ''end'') = JStr s2" "dateParse s2 = Some t2" by blast
  from lt s e have "t1 < t2" by (simp add: dateGe_def)
  with s e show ?thesis by simp
qed

lemma validated_message:
  assumes "validateInput input = None" and "m \<in> set (elems (getProp input (asc ''messages'')))"
  shows "\<exists>t. newDate (getProp m (asc ''timestamp'')) = Some t"
proof -
  from assms(1) have "validateMessages (elems (getProp input (asc ''messages''))) = None"
    by (auto simp: validateInput_def Let_def split: if_splits)
  from validateMessages_None [OF this assms(2)]
  have "isValidTimestamp (getProp m (asc ''timestamp''))"
    by (auto simp: validateMessage_def split: if_splits)
  from isValidTimestamp_parsed [OF this] show ?thesis by auto
qed

text \<open>
  Claim C5. For a validated batch, a subscribed message passes the time filter exactly
  when its time lies in the half-open period: not before the start and strictly before
  the end. A message at the start passes and is represented in the output (a message
  with its key is returned); a message at the end is rejected and is not in the output.
\<close>

theorem time_filter_half_open:
  assumes ok: "filter_mf opts c input = Inr (res, c')"
      and m: "m \<in> set (subscribedMessages input)"
  shows "\<exists>s e t. newDate (getProp (getProp input (asc ''period'')) (asc ''start'')) = Some s
           \<and> newDate (getProp (getProp input (asc ''period'')) (asc ''end'')) = Some e
           \<and> newDate (getProp m (asc ''timestamp'')) = Some t
           \<and> s < e
           \<and> (m \<in> set (timeFilteredMessages input) \<longleftrightarrow> s \<le> t \<and> t < e)
           \<and> (t = s \<longrightarrow> m \<in> set (timeFilteredMessages input)
                        \<and> messageKey m \<in> messageKey ` set (messages res))
           \<and> (t = e \<longrightarrow> m \<notin> set (timeFilteredMessages input) \<and> m \<notin> set (messages res))"
proof -
  from filter_mf_Inr [OF ok] have v: "validateInput input = None"
    and out: "messages res = dedupFrom [] (timeFilteredMessages input)" by simp_all
  from validated_period [OF v] obtain s e
    where s: "newDate (getProp (getProp input (asc ''period'')) (asc ''start'')) = Some s"
      and e: "newDate (getProp (getProp input (asc ''period'')) (asc ''end'')) = Some e"
      and se: "s < e" by blast
  from m have "m \<in> set (elems (getProp input (asc ''messages'')))"
    by (simp add: subscribedMessages_def)
  from validated_message [OF v this] obtain t
    where t: "newDate (getProp m (asc ''timestamp'')) = Some t" by blast
  have inP: "isMessageInPeriod m (getProp input (asc ''period'')) \<longleftrightarrow> s \<le> t \<and> t < e"
    using s e t by (simp add: isMessageInPeriod_def dateGe_def dateLt_def)
  have tf: "m \<in> set (timeFilteredMessages input) \<longleftrightarrow> s \<le> t \<and> t < e"
    using m inP by (simp add: timeFilteredMessages_def)
  have keys: "messageKey ` set (messages res) = messageKey ` set (timeFilteredMessages input)"
    using dedupFrom_keys [of "[]" "timeFilteredMessages input"] out by simp
  have sub: "set (messages res) \<subseteq> set (timeFilteredMessages input)"
    using dedupFrom_subset [of "[]" "timeFilteredMessages input"] out by simp
  have atStart: "t = s \<longrightarrow> m \<in> set (timeFilteredMessages input)
                        \<and> messageKey m \<in> messageKey ` set (messages res)"
    using tf se keys by auto
  have atEnd: "t = e \<longrightarrow> m \<notin> set (timeFilteredMessages input) \<and> m \<notin> set (messages res)"
    using tf sub by auto
  from s e t se tf atStart atEnd show ?thesis by blast
qed

lemma isValidTimestamp_roundTrips: "isValidTimestamp v = roundTrips v"
  by (cases v) (auto simp: isValidTimestamp_def roundTrips_def dateParse_def parseYear_def
                     split: option.splits)

lemma nonEmptyString_iff: "nonEmptyString v \<longleftrightarrow> truthy v \<and> typeofString v"
  by (cases v) (auto simp: nonEmptyString_def)

lemma roundTrips_truthy: "roundTrips v \<Longrightarrow> truthy v"
  by (cases v) (auto simp: roundTrips_def dateParse_def parseYear_def)

lemma validateMessage_Some:
  "validateMessage m = Some e \<Longrightarrow>
     (e = MessageNotObject \<and> \<not> (truthy m \<and> typeofObject m))
   \<or> (e = MessageChatId \<and> \<not> nonEmptyString (getProp m (asc ''chat_id'')))
   \<or> (e = MessageSenderId \<and> \<not> nonEmptyString (getProp m (asc ''sender_id'')))
   \<or> (e = MessageTimestamp \<and> \<not> roundTrips (getProp m (asc ''timestamp'')))
   \<or> (e = MessageText \<and> \<not> typeofString (getProp m (asc ''text'')))"
  by (auto simp: validateMessage_def nonEmptyString_iff isValidTimestamp_roundTrips
           split: if_splits dest: roundTrips_truthy)

lemma validateMessage_None_iff:
  "validateMessage m = None \<longleftrightarrow>
     truthy m \<and> typeofObject m \<and> nonEmptyString (getProp m (asc ''chat_id''))
     \<and> nonEmptyString (getProp m (asc ''sender_id''))
     \<and> roundTrips (getProp m (asc ''timestamp'')) \<and> typeofString (getProp m (asc ''text''))"
  by (auto simp: validateMessage_def nonEmptyString_iff isValidTimestamp_roundTrips
           dest: roundTrips_truthy)

lemma validateMessages_Some:
  "validateMessages ms = Some e \<Longrightarrow> \<exists>m \<in> set ms. validateMessage m = Some e"
  by (induction ms) (auto split: option.splits)

lemma validateMessages_None_iff:
  "validateMessages ms = None \<longleftrightarrow> (\<forall>m \<in> set ms. validateMessage m = None)"
  by (induction ms) (auto split: option.splits)

lemma validateMessages_violated:
  assumes "validateMessages (elems (getProp input (asc ''messages''))) = Some e"
  shows "violated e input"
proof -
  from validateMessages_Some [OF assms] obtain m
    where m: "m \<in> set (elems (getProp input (asc ''messages'')))" and e: "validateMessage m = Some e"
    by blast
  from validateMessage_Some [OF e] m show ?thesis
    by (auto simp: list_ex_iff)
qed

lemma validateInput_violated: "validateInput input = Some e \<Longrightarrow> violated e input"
  using validateMessages_violated [of input e]
  by (auto simp: validateInput_def Let_def isValidTimestamp_roundTrips split: if_splits)

lemma validateInput_None_iff: "validateInput input = None \<longleftrightarrow> wellFormed input"
  by (auto simp: validateInput_def Let_def wellFormed_def allErrors_def isValidTimestamp_roundTrips
                 validateMessages_None_iff validateMessage_None_iff list_ex_iff)

text \<open>
  Claim C4. \<open>filter\<close> throws on every input that violates a constraint of
  \<open>wellFormed\<close>: messages or subscribed chats that are not arrays, a period bound
  that is missing or does not survive the parse-and-format round trip, a start that is
  not before the end, a message without a non-empty chat or sender id, without a valid
  timestamp or without a string text. The error names a constraint that the input
  violates, and the thrown result carries no message and no counter. A well-formed
  input is not rejected.
\<close>

theorem filter_raises_on_invalid:
  "(\<not> wellFormed input \<longrightarrow> (\<exists>e. filter_mf opts c input = Inl e \<and> violated e input))
   \<and> (wellFormed input \<longrightarrow> (\<exists>r. filter_mf opts c input = Inr r))"
proof (cases "validateInput input")
  case None
  then show ?thesis
    by (auto simp: validateInput_None_iff [symmetric] filter_mf_def Let_def split: prod.splits)
next
  case (Some e)
  then have "\<not> wellFormed input" by (simp add: validateInput_None_iff [symmetric])
  moreover from Some have "filter_mf opts c input = Inl e" by (simp add: filter_mf_def)
  moreover from Some have "violated e input" by (rule validateInput_violated)
  ultimately show ?thesis by simp
qed

lemma exampleInput_result:
  "filter_mf defaultOptions [] exampleInput = Inr (exampleResult, exampleCache)"
  by code_simp

theorem filter_counters_conserved_witness:
  "filter_mf defaultOptions [] exampleInput = Inr (exampleResult, exampleCache)
   \<and> totalProcessed (stats exampleResult)
       = filteredBySubscription (stats exampleResult) + filteredByTimePeriod (stats exampleResult)
         + duplicatesRemoved (stats exampleResult) + finalCount (stats exampleResult)
   \<and> finalCount (stats exampleResult) = int (length (messages exampleResult))"
  using filter_counters_conserved [OF exampleInput_result] exampleInput_result by simp

theorem time_filter_half_open_witness:
  "filter_mf defaultOptions [] exampleInput = Inr (exampleResult, exampleCache)
   \<and> msgAtStart \<in> set (subscribedMessages exampleInput)
   \<and> msgAtEnd \<in> set (subscribedMessages exampleInput)
   \<and> msgAtStart \<in> set (timeFilteredMessages exampleInput)
   \<and> messageKey msgAtStart \<in> messageKey ` set (messages exampleResult)
   \<and> msgAtEnd \<notin> set (timeFilteredMessages exampleInput)
   \<and> msgAtEnd \<notin> set (messages exampleResult)"
proof -
  have m1: "msgAtStart \<in> set (subscribedMessages exampleInput)" by code_simp
  have m2: "msgAtEnd \<in> set (subscribedMessages exampleInput)" by code_simp
  have s: "newDate (getProp (getProp exampleInput (asc ''period'')) (asc ''start'')) = Some 1736935200000"
    by code_simp
  have e: "newDate (getProp (getProp exampleInput (asc ''period'')) (asc ''end'')) = Some 1738367999999"
    by code_simp
  have t1: "newDate (getProp msgAtStart (asc ''timestamp'')) = Some 1736935200000" by code_simp
  have t2: "newDate (getProp msgAtEnd (asc ''timestamp'')) = Some 1738367999999" by code_simp
  from time_filter_half_open [OF exampleInput_result m1] s e t1
  have a: "msgAtStart \<in> set (timeFilteredMessages exampleInput)
           \<and> messageKey msgAtStart \<in> messageKey ` set (messages exampleResult)"
    by auto
  from time_filter_half_open [OF exampleInput_result m2] s e t2
  have b: "msgAtEnd \<notin> set (timeFilteredMessages exampleInput) \<and> msgAtEnd \<notin> set (messages exampleResult)"
    by auto
  from exampleInput_result m1 m2 a b show ?thesis by simp
qed

theorem filter_raises_on_invalid_witness:
  "\<not> wellFormed reversedPeriodInput
   \<and> filter_mf defaultOptions [] reversedPeriodInput = Inl PeriodStartNotBeforeEnd
   \<and> violated PeriodStartNotBeforeEnd reversedPeriodInput
   \<and> wellFormed exampleInput
   \<and> (\<exists>r. filter_mf defaultOptions [] exampleInput = Inr r)"
proof -
  have bad: "\<not> wellFormed reversedPeriodInput" by code_simp
  have good: "wellFormed exampleInput" by code_simp
  have r: "filter_mf defaultOptions [] reversedPeriodInput = Inl PeriodStartNotBeforeEnd"
    by code_simp
  from filter_raises_on_invalid [of reversedPeriodInput defaultOptions "[]"] bad r
  have v: "violated PeriodStartNotBeforeEnd reversedPeriodInput" by auto
  from filter_raises_on_invalid [of exampleInput defaultOptions "[]"] good
  have g: "\<exists>r. filter_mf defaultOptions [] exampleInput = Inr r" by blast
  from bad r v good g show ?thesis by blast
qed

text \<open>
  Claim C6, at a batch of two messages in scope whose tuples of chat, sender, timestamp
  and text differ but whose colon-joined keys coincide: the second message is removed
  as a duplicate of the first.
\<close>

theorem dedup_key_collision:
  "filter_mf defaultOptions [] collisionInput
     = Inr (\<lparr>messages = [collisionFirst],
             stats = \<lparr>totalProcessed = 2, filteredBySubscription = 0, filteredByTimePeriod = 0,
                      duplicatesRemoved = 1, finalCount = 1\<rparr>\<rparr>,
            [asc ''a:b:c:2025-01-15T10:00:00.000Z:hello''])
   \<and> messageTuple collisionSecond \<noteq> messageTuple collisionFirst"
  by code_simp

section \<open>Properties of the date parsers\<close>


































text \<open>
  Where the offset changes before the resolved day, the date keeps the local time of
  day, and is not a whole number of days after the base time: in Jerusalem on the
  Wednesday before summer time began, "this week" resolves to two days less one hour
  later.
\<close>

lemma this_week_across_offset_change:
  "daysUntilFriday jerusalemSpring wednesdayBeforeChange = 2
   \<and> \<not> sameOffset jerusalemSpring wednesdayBeforeChange
           (wednesdayBeforeChange + 2 * msPerDay)
   \<and> extractRelativeDates jerusalemSpring (asc ''this week'') wednesdayBeforeChange
       = [Some (wednesdayBeforeChange + 2 * msPerDay - 3600000),
          Some (wednesdayBeforeChange + 2 * msPerDay - 3600000)]"
  by code_simp


section \<open>Properties of the importance score and of the classifier\<close>

lemma boost_nonneg: "0 \<le> boost c k"
  by (simp add: boost_def fl_nonneg)

lemma jsAdd_boost:
  assumes "fl s = s"
  shows "jsAdd s (boost c k) = (if c then jsAdd s (fl k) else s)"
  using assms by (simp add: boost_def jsAdd_def)

lemma step_double:
  assumes "fl s = s"
  shows "fl (if c then jsAdd s k else s) = (if c then jsAdd s k else s)"
  using assms by (simp add: jsAdd_double)

lemma step_ge:
  assumes "fl s = s" and "0 \<le> k"
  shows "s \<le> (if c then jsAdd s k else s)"
  using jsAdd_ge [OF assms] by simp

text \<open>
  The score of \<open>calculateImportance\<close> as a chain of rounded sums: each sum is a
  double, none is below the one before, and the first is the ratio of the code.
\<close>

lemma calculateImportance_chain:
  "\<exists>s. fl s = s \<and> 0 \<le> s
       \<and> foldl jsAdd
             (jsDiv (of_nat (length (nonStopwordTokens text)))
                    (of_nat (length (splitWhitespace (toLowerCase text)))))
             [boost (test HOMEWORK_PATTERNS_keywords text) (3 / 10),
              boost (numericOrRelativeDate text) (2 / 10),
              boost (test exclamationPattern text) (1 / 10),
              boost (test urgencyPattern text) (4 / 10)] = s
       \<and> calculateImportance text = (if nonStopwordTokens text = [] then 0 else min s 1)"
proof -
  define r where "r = jsDiv (of_nat (length (nonStopwordTokens text)))
                            (of_nat (length (splitWhitespace (toLowerCase text))))"
  define s1 where "s1 = (if test HOMEWORK_PATTERNS_keywords text then jsAdd r (fl (3 / 10)) else r)"
  define s2 where "s2 = (if numericOrRelativeDate text then jsAdd s1 (fl (2 / 10)) else s1)"
  define s3 where "s3 = (if test exclamationPattern text then jsAdd s2 (fl (1 / 10)) else s2)"
  define s4 where "s4 = (if test urgencyPattern text then jsAdd s3 (fl (4 / 10)) else s3)"
  have d0: "fl r = r" unfolding r_def by (rule jsDiv_double)
  have d1: "fl s1 = s1" unfolding s1_def by (rule step_double [OF d0])
  have d2: "fl s2 = s2" unfolding s2_def by (rule step_double [OF d1])
  have d3: "fl s3 = s3" unfolding s3_def by (rule step_double [OF d2])
  have d4: "fl s4 = s4" unfolding s4_def by (rule step_double [OF d3])
  have r0: "0 \<le> r" unfolding r_def by (simp add: jsDiv_def fl_nonneg)
  have g: "r \<le> s1" "s1 \<le> s2" "s2 \<le> s3" "s3 \<le> s4"
    unfolding s1_def s2_def s3_def s4_def
    using step_ge [OF d0 fl_nonneg] step_ge [OF d1 fl_nonneg] step_ge [OF d2 fl_nonneg]
      step_ge [OF d3 fl_nonneg]
    unfolding s1_def s2_def s3_def by simp_all
  have code: "calculateImportance text = (if nonStopwordTokens text = [] then 0 else min s4 1)"
    by (simp add: calculateImportance_def Let_def nonStopwordTokens_def
                  r_def s1_def s2_def s3_def s4_def numericOrRelativeDate_def)
  have fold: "foldl jsAdd r
                [boost (test HOMEWORK_PATTERNS_keywords text) (3 / 10),
                 boost (numericOrRelativeDate text) (2 / 10),
                 boost (test exclamationPattern text) (1 / 10),
                 boost (test urgencyPattern text) (4 / 10)] = s4"
    unfolding foldl.simps jsAdd_boost [OF d0] s1_def [symmetric]
      jsAdd_boost [OF d1] s2_def [symmetric] jsAdd_boost [OF d2] s3_def [symmetric]
      jsAdd_boost [OF d3] s4_def [symmetric] ..
  have "0 \<le> s4" using r0 g by linarith
  with d4 fold code show ?thesis unfolding r_def by blast
qed

lemma calculateImportance_double: "fl (calculateImportance text) = calculateImportance text"
proof -
  from calculateImportance_chain [of "text"] obtain s where
    d: "fl s = s" and
    c: "calculateImportance text = (if nonStopwordTokens text = [] then 0 else min s 1)"
    by blast
  from c d fl_one show ?thesis by (simp add: min_def)
qed

lemma calculateImportance_le_one: "calculateImportance text \<le> 1"
  by (simp add: calculateImportance_def Let_def)

lemma announcementScore_ge:
  assumes d: "fl imp = imp" and le: "imp \<le> 1"
  shows "imp \<le> calculateAnnouncementScore text imp"
proof -
  define s1 where "s1 = (if test ANNOUNCEMENT_PATTERNS_event text then jsAdd imp (fl (3 / 10)) else imp)"
  define s2 where "s2 = (if test ANNOUNCEMENT_PATTERNS_permissionSlip text then jsAdd s1 (fl (4 / 10)) else s1)"
  define s3 where "s3 = (if test ANNOUNCEMENT_PATTERNS_urgent text then jsAdd s2 (fl (3 / 10)) else s2)"
  define s4 where "s4 = (if test ANNOUNCEMENT_PATTERNS_reminder text then jsAdd s3 (fl (2 / 10)) else s3)"
  define s5 where "s5 = (if test infoIndicators text then jsAdd s4 (fl (2 / 10)) else s4)"
  have d1: "fl s1 = s1" unfolding s1_def by (rule step_double [OF d])
  have d2: "fl s2 = s2" unfolding s2_def by (rule step_double [OF d1])
  have d3: "fl s3 = s3" unfolding s3_def by (rule step_double [OF d2])
  have d4: "fl s4 = s4" unfolding s4_def by (rule step_double [OF d3])
  have g: "imp \<le> s1" "s1 \<le> s2" "s2 \<le> s3" "s3 \<le> s4" "s4 \<le> s5"
    unfolding s1_def s2_def s3_def s4_def s5_def
    using step_ge [OF d fl_nonneg] step_ge [OF d1 fl_nonneg] step_ge [OF d2 fl_nonneg]
      step_ge [OF d3 fl_nonneg] step_ge [OF d4 fl_nonneg]
    unfolding s1_def s2_def s3_def s4_def by simp_all
  have "calculateAnnouncementScore text imp = min s5 1"
    by (simp add: calculateAnnouncementScore_def Let_def s1_def s2_def s3_def s4_def s5_def)
  with g le show ?thesis by simp
qed

text \<open>
  The split of the code and the tokens: the tokens are the pieces that are not empty,
  and a text that is not empty and has no white space at either end has no empty piece.
\<close>

lemma filter_splitFrom:
  "filter (\<lambda>w. w \<noteq> []) (splitFrom cur s) = tokensFrom cur s"
  by (induction cur s rule: splitFrom.induct) auto

lemma splitFrom_no_empty:
  assumes "cur \<noteq> [] \<or> (s \<noteq> [] \<and> \<not> isSpace (hd s))"
      and "s \<noteq> [] \<longrightarrow> \<not> isSpace (last s)"
  shows "[] \<notin> set (splitFrom cur s)"
  using assms by (induction cur s rule: splitFrom.induct) auto

lemma split_trimmed:
  assumes "trimmed s"
  shows "splitWhitespace s = tokens s"
proof -
  from assms have "[] \<notin> set (splitFrom [] s)"
    by (intro splitFrom_no_empty) (simp_all add: trimmed_def)
  then have "filter (\<lambda>w. w \<noteq> []) (splitFrom [] s) = splitFrom [] s"
    by (intro filter_True) auto
  with filter_splitFrom [of "[]" s] show ?thesis
    by (simp add: splitWhitespace_def tokens_def)
qed

lemma isSpace_lower: "isSpace (if 65 \<le> c \<and> c \<le> 90 then c + 32 else c) = isSpace c"
  by (auto simp: isSpace_def)

lemma tokensFrom_toLowerCase:
  "tokensFrom (toLowerCase cur) (toLowerCase s) = map toLowerCase (tokensFrom cur s)"
proof (induction s arbitrary: cur)
  case Nil
  then show ?case by (simp add: toLowerCase_def rev_map)
next
  case (Cons c cs)
  have e: "toLowerCase [] = []" by (simp add: toLowerCase_def)
  have n: "(toLowerCase cur = []) = (cur = [])" by (simp add: toLowerCase_def)
  have r: "rev (toLowerCase cur) = toLowerCase (rev cur)" by (simp add: toLowerCase_def rev_map)
  have c: "toLowerCase (c # cur) = (if 65 \<le> c \<and> c \<le> 90 then c + 32 else c) # toLowerCase cur"
    by (simp add: toLowerCase_def)
  have t: "toLowerCase (c # cs) = (if 65 \<le> c \<and> c \<le> 90 then c + 32 else c) # toLowerCase cs"
    by (simp add: toLowerCase_def)
  show ?case
    unfolding t tokensFrom.simps isSpace_lower n r
    using Cons.IH [of "[]"] Cons.IH [of "c # cur"] unfolding e c by simp
qed

lemma tokens_toLowerCase: "tokens (toLowerCase s) = map toLowerCase (tokens s)"
  using tokensFrom_toLowerCase [of "[]" s] by (simp add: tokens_def toLowerCase_def)

lemma trimmed_toLowerCase:
  assumes "trimmed s"
  shows "trimmed (toLowerCase s)"
  using assms by (simp add: trimmed_def toLowerCase_def hd_map last_map isSpace_lower)

lemma words_trimmed:
  assumes "trimmed text"
  shows "splitWhitespace (toLowerCase text) = map toLowerCase (tokens text)"
    and "nonStopwordTokens text = map toLowerCase (contentTokens text)"
proof -
  show w: "splitWhitespace (toLowerCase text) = map toLowerCase (tokens text)"
    using split_trimmed [OF trimmed_toLowerCase [OF assms]] by (simp add: tokens_toLowerCase)
  show "nonStopwordTokens text = map toLowerCase (contentTokens text)"
    unfolding nonStopwordTokens_def contentTokens_def w by (simp add: filter_map comp_def)
qed

text \<open>A message that is not empty is trimmed after \<open>normalizeText\<close>.\<close>

lemma trim_trimmed:
  assumes "trim s \<noteq> []"
  shows "trimmed (trim s)"
proof -
  define a where "a = dropWhile isSpace s"
  define b where "b = dropWhile isSpace (rev a)"
  have t: "trim s = rev b" by (simp add: trim_def a_def b_def)
  with assms have bn: "b \<noteq> []" by simp
  then have hb: "\<not> isSpace (hd b)" unfolding b_def by (rule hd_dropWhile)
  from bn have an: "a \<noteq> []" by (auto simp: b_def)
  then have ha: "\<not> isSpace (hd a)" unfolding a_def by (rule hd_dropWhile)
  have "last b = last (rev a)"
    using bn unfolding b_def by (metis append_Nil2 dropWhile_eq_Nil_conv last_appendR takeWhile_dropWhile_id)
  then have lb: "\<not> isSpace (last b)" using ha an by (simp add: last_rev)
  from bn hb lb show ?thesis
    unfolding t trimmed_def by (simp add: hd_rev last_rev)
qed

lemma normalizeText_trimmed:
  assumes "normalizeText m \<noteq> []"
  shows "trimmed (normalizeText m)"
  using assms unfolding normalizeText_def by (rule trim_trimmed)

text \<open>
  Claim C3, amended. For every text that is not empty and neither starts nor ends with
  white space, \<open>calculateImportance\<close> returns the ratio of the tokens that are not
  stop words to all tokens, plus 0.3 if the homework keyword pattern matches, plus 0.2 if
  the numeric or the relative date pattern matches, plus 0.1 if the text contains an
  exclamation mark, plus 0.4 if an urgency keyword matches, each sum rounded as the code
  rounds it, clamped to the interval from 0 to 1; and such a text without a token that
  is not a stop word scores 0.
\<close>

theorem importance_formula:
  assumes "trimmed text"
  shows "calculateImportance text = importanceFormula numericOrRelativeDate text
         \<and> 0 \<le> calculateImportance text \<and> calculateImportance text \<le> 1
         \<and> (contentTokens text = [] \<longrightarrow> calculateImportance text = 0)"
proof -
  note w = words_trimmed [OF assms]
  have ratio: "jsDiv (of_nat (length (nonStopwordTokens text)))
                     (of_nat (length (splitWhitespace (toLowerCase text))))
                 = contentRatio text"
    unfolding w contentRatio_def by simp
  have empty: "(nonStopwordTokens text = []) = (contentTokens text = [])"
    unfolding w by simp
  from calculateImportance_chain [of "text"] obtain s where
    s0: "0 \<le> s" and
    f: "foldl jsAdd (contentRatio text)
          [boost (test HOMEWORK_PATTERNS_keywords text) (3 / 10),
           boost (numericOrRelativeDate text) (2 / 10),
           boost (test exclamationPattern text) (1 / 10),
           boost (test urgencyPattern text) (4 / 10)] = s" and
    c: "calculateImportance text = (if contentTokens text = [] then 0 else min s 1)"
    unfolding ratio empty by blast
  have "importanceFormula numericOrRelativeDate text
          = (if contentTokens text = [] then 0 else min s 1)"
    unfolding importanceFormula_def f using s0 by (simp add: min.commute)
  with c s0 show ?thesis by simp
qed

text \<open>
  "See the book!" has three tokens of which two are not stop words: the score is two
  thirds plus 0.1, rounded.
\<close>

theorem importance_formula_witness:
  "trimmed (asc ''See the book!'')
   \<and> calculateImportance (asc ''See the book!'')
       = importanceFormula numericOrRelativeDate (asc ''See the book!'')
   \<and> calculateImportance (asc ''See the book!'') = jsAdd (fl (2 / 3)) (fl (1 / 10))"
proof -
  have t: "trimmed (asc ''See the book!'')" by code_simp
  have v: "calculateImportance (asc ''See the book!'') = jsAdd (fl (2 / 3)) (fl (1 / 10))"
    by code_simp
  from importance_formula [OF t] t v show ?thesis by simp
qed

text \<open>
  Where the split of the code leaves an empty piece, the code counts it as a word that
  is not a stop word, and the score is not that of the formula: the empty text scores 1
  and a stop word followed by a space one half, where the formula gives 0.
\<close>

lemma importance_of_empty_pieces:
  "calculateImportance [] = 1
   \<and> importanceFormula numericOrRelativeDate [] = 0
   \<and> calculateImportance (asc ''the '') = 1 / 2
   \<and> importanceFormula numericOrRelativeDate (asc ''the '') = 0"
  by code_simp

text \<open>
  Claim C3 as stated fails on "the Monday": the weekday pattern, one of the date
  patterns, matches, and the score is the ratio 0.5 without the 0.2 of the claim.
\<close>

theorem importance_counterexample:
  "test DATE_PATTERNS_weekday (asc ''the Monday'')
   \<and> calculateImportance (asc ''the Monday'') = 1 / 2
   \<and> importanceAsClaimed (asc ''the Monday'') = fl (7 / 10)
   \<and> calculateImportance (asc ''the Monday'') \<noteq> importanceAsClaimed (asc ''the Monday'')"
  by code_simp

text \<open>
  Claim C1, amended. For every message and metadata, \<open>classifyMessage\<close> returns
  \<open>null\<close> when the importance of the processed text is below 0.1, whatever the
  scores. Otherwise it follows a fixed chain and stops at the first threshold passed: an
  item of type homework whose confidence is the homework score if that score exceeds
  0.6, whatever the schedule-change score is; else an item of type schedule change whose
  confidence is the schedule-change score if that score exceeds 0.6; else an announcement
  whose confidence is the announcement score if that score exceeds 0.4; else \<open>null\<close>.
  No score is compared with another.
\<close>

theorem homework_priority:
  "map_option (\<lambda>r. (itemType (item r), confidence r)) (classifyMessage message metadata)
     = (let p = processedTextOf message;
            importance = calculateImportance p
        in if importance < fl (1 / 10) then None
           else if fl (6 / 10) < calculateHomeworkScore p
             then Some (homework, calculateHomeworkScore p)
           else if fl (6 / 10) < calculateScheduleChangeScore p
             then Some (schedule_change, calculateScheduleChangeScore p)
           else if fl (4 / 10) < calculateAnnouncementScore p importance
             then Some (announcement, calculateAnnouncementScore p importance)
           else None)"
  by (simp add: classifyMessage_def Let_def createHomeworkItem_def
                createScheduleChangeItem_def createAnnouncementItem_def)

text \<open>
  A message that passes both the homework and the schedule-change threshold is homework
  with the homework score; one that passes the schedule-change threshold only is a
  schedule change with that score.
\<close>

theorem homework_priority_witness:
  "\<not> calculateImportance (processedTextOf homeworkAndCancellation) < fl (1 / 10)
   \<and> fl (6 / 10) < calculateHomeworkScore (processedTextOf homeworkAndCancellation)
   \<and> fl (6 / 10) < calculateScheduleChangeScore (processedTextOf homeworkAndCancellation)
   \<and> map_option (\<lambda>r. (itemType (item r), confidence r))
         (classifyMessage homeworkAndCancellation exampleMetadata)
       = Some (homework, calculateHomeworkScore (processedTextOf homeworkAndCancellation))
   \<and> \<not> calculateImportance (processedTextOf roomChange) < fl (1 / 10)
   \<and> \<not> fl (6 / 10) < calculateHomeworkScore (processedTextOf roomChange)
   \<and> fl (6 / 10) < calculateScheduleChangeScore (processedTextOf roomChange)
   \<and> map_option (\<lambda>r. (itemType (item r), confidence r))
         (classifyMessage roomChange exampleMetadata)
       = Some (schedule_change, calculateScheduleChangeScore (processedTextOf roomChange))"
proof -
  have a: "\<not> calculateImportance (processedTextOf homeworkAndCancellation) < fl (1 / 10)"
    by code_simp
  have b: "fl (6 / 10) < calculateHomeworkScore (processedTextOf homeworkAndCancellation)"
    by code_simp
  have c: "fl (6 / 10) < calculateScheduleChangeScore (processedTextOf homeworkAndCancellation)"
    by code_simp
  have d: "\<not> calculateImportance (processedTextOf roomChange) < fl (1 / 10)"
    by code_simp
  have e: "\<not> fl (6 / 10) < calculateHomeworkScore (processedTextOf roomChange)"
    by code_simp
  have f: "fl (6 / 10) < calculateScheduleChangeScore (processedTextOf roomChange)"
    by code_simp
  from homework_priority [of homeworkAndCancellation exampleMetadata] a b
  have r1: "map_option (\<lambda>r. (itemType (item r), confidence r))
              (classifyMessage homeworkAndCancellation exampleMetadata)
            = Some (homework, calculateHomeworkScore (processedTextOf homeworkAndCancellation))"
    by (simp add: Let_def)
  from homework_priority [of roomChange exampleMetadata] d e f
  have r2: "map_option (\<lambda>r. (itemType (item r), confidence r))
              (classifyMessage roomChange exampleMetadata)
            = Some (schedule_change, calculateScheduleChangeScore (processedTextOf roomChange))"
    by (simp add: Let_def)
  from a b c d e f r1 r2 show ?thesis by blast
qed

text \<open>
  Claim C1 as stated fails on a message whose homework score is 0.7 and whose
  importance is 1/11: the importance gate comes first and the result is \<open>null\<close>.
\<close>

theorem homework_priority_counterexample:
  "fl (6 / 10) < calculateHomeworkScore (processedTextOf lowSignalHomework)
   \<and> classifyMessage lowSignalHomework exampleMetadata = None"
  by code_simp

text \<open>
  Claim C2, amended. For every message and metadata, \<open>classifyMessage\<close> returns
  \<open>null\<close> when the importance of the processed text is below 0.1, and in particular
  when every piece into which the code splits the processed text is a stop word.
\<close>

theorem low_importance_is_none:
  assumes "calculateImportance (processedTextOf message) < fl (1 / 10)
           \<or> nonStopwordTokens (processedTextOf message) = []"
  shows "classifyMessage message metadata = None"
proof -
  have "0 < fl (1 / 10)" by code_simp
  moreover have "nonStopwordTokens (processedTextOf message) = []
                  \<Longrightarrow> calculateImportance (processedTextOf message) = 0"
    by (simp add: calculateImportance_def nonStopwordTokens_def Let_def)
  ultimately have "calculateImportance (processedTextOf message) < fl (1 / 10)"
    using assms by auto
  then show ?thesis by (simp add: classifyMessage_def Let_def)
qed

text \<open>Three stop words classify as nothing.\<close>

theorem low_importance_is_none_witness:
  "(calculateImportance (processedTextOf (asc ''is it the'')) < fl (1 / 10)
    \<or> nonStopwordTokens (processedTextOf (asc ''is it the'')) = [])
   \<and> classifyMessage (asc ''is it the'') exampleMetadata = None"
proof -
  have a: "nonStopwordTokens (processedTextOf (asc ''is it the'')) = []" by code_simp
  then have h: "calculateImportance (processedTextOf (asc ''is it the'')) < fl (1 / 10)
    \<or> nonStopwordTokens (processedTextOf (asc ''is it the'')) = []" by simp
  from low_importance_is_none [OF h, of exampleMetadata] h show ?thesis by simp
qed

text \<open>
  Claim C2 as stated fails on "homework due", which has two tokens that are not stop
  words and classifies as homework. The split of the empty text has one piece, the empty
  string, which is not a stop word: its importance is 1 and it classifies as an
  announcement.
\<close>

theorem low_signal_counterexample:
  "length (nonStopwordTokens (asc ''homework due'')) = 2
   \<and> length (nonStopwordTokens (processedTextOf (asc ''homework due''))) = 2
   \<and> map_option (\<lambda>r. itemType (item r)) (classifyMessage (asc ''homework due'') exampleMetadata)
       = Some homework
   \<and> map_option (\<lambda>r. (itemType (item r), confidence r)) (classifyMessage [] exampleMetadata)
       = Some (announcement, 1)"
  by code_simp

text \<open>
  Claim C9. For every message whose processed text has an importance above 0.4, and for
  any metadata, \<open>classifyMessage\<close> returns an item; when neither the homework nor the
  schedule-change threshold is passed, the item is an announcement whose confidence, the
  announcement score, is at least the importance.
\<close>

theorem important_message_classified:
  assumes "fl (4 / 10) < calculateImportance (processedTextOf message)"
  shows "\<exists>r. classifyMessage message metadata = Some r
             \<and> (\<not> fl (6 / 10) < calculateHomeworkScore (processedTextOf message)
                  \<and> \<not> fl (6 / 10) < calculateScheduleChangeScore (processedTextOf message)
                \<longrightarrow> itemType (item r) = announcement
                    \<and> calculateImportance (processedTextOf message) \<le> confidence r)"
proof -
  define p where "p = processedTextOf message"
  define imp where "imp = calculateImportance p"
  have d: "fl imp = imp" unfolding imp_def by (rule calculateImportance_double)
  have le: "imp \<le> 1" unfolding imp_def by (rule calculateImportance_le_one)
  have "fl (1 / 10) \<le> fl (4 / 10)" by (rule fl_mono) simp
  with assms have gate: "\<not> imp < fl (1 / 10)" unfolding imp_def p_def by linarith
  have ann: "fl (4 / 10) < calculateAnnouncementScore p imp"
    using announcementScore_ge [OF d le, of p] assms unfolding imp_def p_def by linarith
  have ge: "imp \<le> calculateAnnouncementScore p imp"
    by (rule announcementScore_ge [OF d le])
  show ?thesis
    using gate ann ge unfolding imp_def p_def
    by (simp add: classifyMessage_def Let_def createHomeworkItem_def
                  createScheduleChangeItem_def createAnnouncementItem_def)
qed

text \<open>A greeting of three content words is an announcement.\<close>

theorem important_message_classified_witness:
  "fl (4 / 10) < calculateImportance (processedTextOf (asc ''Good morning everyone!''))
   \<and> \<not> fl (6 / 10) < calculateHomeworkScore (processedTextOf (asc ''Good morning everyone!''))
   \<and> \<not> fl (6 / 10) < calculateScheduleChangeScore (processedTextOf (asc ''Good morning everyone!''))
   \<and> (\<exists>r. classifyMessage (asc ''Good morning everyone!'') exampleMetadata = Some r
            \<and> itemType (item r) = announcement
            \<and> calculateImportance (processedTextOf (asc ''Good morning everyone!'')) \<le> confidence r)"
proof -
  have a: "fl (4 / 10) < calculateImportance (processedTextOf (asc ''Good morning everyone!''))"
    by code_simp
  have b: "\<not> fl (6 / 10) < calculateHomeworkScore (processedTextOf (asc ''Good morning everyone!''))"
    by code_simp
  have c: "\<not> fl (6 / 10) < calculateScheduleChangeScore (processedTextOf (asc ''Good morning everyone!''))"
    by code_simp
  from important_message_classified [OF a, of exampleMetadata] a b c show ?thesis by blast
qed


end
